theory Spec2Isabelle
  imports Complex_Main "HOL-Library.Word" "HOL-Library.AList"
begin

section \<open>Python values, exceptions and formatted strings\<close>

text \<open>
  The backend exchanges JSON with its clients and with the translation engine. A parsed
  JSON value (what \<^verbatim>\<open>json.loads\<close> returns) is a \<open>json\<close>; a Python \<^verbatim>\<open>dict\<close> with string
  keys is an association list looked up with \<open>map_of\<close>. Python floats are modelled as
  exact reals throughout: rounding of float32 and float64 is outside the model.
\<close>

datatype json =
    JNull
  | JBool bool
  | JInt int
  | JFloat real
  | JStr string
  | JList "json list"
  | JDict "(string \<times> json) list"

text \<open>
  An f-string is kept as the list of its parts: literal text, the \<^verbatim>\<open>str()\<close> of an
  interpolated JSON value, or an interpolated integer. So
  \<^verbatim>\<open>f"Unsupported language pair: {a} -> {b}"\<close> is
  \<open>[Lit ''Unsupported language pair: '', Str a, Lit '' -> '', Str b]\<close>.
\<close>

datatype fragment = Lit string | Str json | Num int

type_synonym pystr = "fragment list"

text \<open>
  The exception classes the modelled code raises or catches. \<open>ProcessorError\<close> and its
  subclass \<open>ModelLoadError\<close> are the classes of translation_processor.py (the ones
  main.py imports); \<open>LibraryError\<close> stands for every other subclass of
  \<^verbatim>\<open>Exception\<close> raised by a library (binascii.Error, aiohttp.ClientError,
  asyncio.TimeoutError, ...).
\<close>

datatype exn =
    ProcessorError pystr
  | ModelLoadError pystr
  | ValueError pystr
  | TypeError pystr
  | NameError pystr
  | AttributeError pystr
  | ZeroDivisionError pystr
  | LibraryError pystr

fun str_exn :: "exn \<Rightarrow> pystr" where
  "str_exn (ProcessorError m) = m"
| "str_exn (ModelLoadError m) = m"
| "str_exn (ValueError m) = m"
| "str_exn (TypeError m) = m"
| "str_exn (NameError m) = m"
| "str_exn (AttributeError m) = m"
| "str_exn (ZeroDivisionError m) = m"
| "str_exn (LibraryError m) = m"

text \<open>\<^verbatim>\<open>except ProcessorError\<close> catches the class and its subclass.\<close>

fun isinstance_ProcessorError :: "exn \<Rightarrow> bool" where
  "isinstance_ProcessorError (ProcessorError m) = True"
| "isinstance_ProcessorError (ModelLoadError m) = True"
| "isinstance_ProcessorError e = False"

text \<open>\<^verbatim>\<open>except ValueError\<close>.\<close>

fun isinstance_ValueError :: "exn \<Rightarrow> bool" where
  "isinstance_ValueError (ValueError m) = True"
| "isinstance_ValueError e = False"

text \<open>Truth value of a JSON value (\<^verbatim>\<open>if not audio_chunk\<close>).\<close>

fun truthy :: "json \<Rightarrow> bool" where
  "truthy JNull = False"
| "truthy (JBool b) = b"
| "truthy (JInt i) = (i \<noteq> 0)"
| "truthy (JFloat x) = (x \<noteq> 0)"
| "truthy (JStr s) = (s \<noteq> [])"
| "truthy (JList xs) = (xs \<noteq> [])"
| "truthy (JDict kvs) = (kvs \<noteq> [])"

text \<open>\<^verbatim>\<open>d.get(key, default)\<close> on a dict.\<close>

definition dict_get :: "(string \<times> json) list \<Rightarrow> string \<Rightarrow> json \<Rightarrow> json" where
  "dict_get d k dflt = (case map_of d k of None \<Rightarrow> dflt | Some v \<Rightarrow> v)"

text \<open>
  \<^verbatim>\<open>obj.get(key, default)\<close> on an arbitrary JSON value: only a dict has the method,
  every other value raises AttributeError.
\<close>

fun attr_get :: "json \<Rightarrow> string \<Rightarrow> json \<Rightarrow> exn + json" where
  "attr_get (JDict d) k dflt = Inr (dict_get d k dflt)"
| "attr_get v k dflt = Inl (AttributeError [Lit ''object has no attribute get''])"

text \<open>
  \<^verbatim>\<open>key in d\<close> for a dict with string keys: a list or a dict is unhashable and the
  test raises TypeError; any other value that is no string is simply not a key.
\<close>

fun dict_contains :: "(string \<times> 'v) list \<Rightarrow> json \<Rightarrow> exn + bool" where
  "dict_contains d (JStr s) = Inr (map_of d s \<noteq> None)"
| "dict_contains d (JList xs) = Inl (TypeError [Lit ''unhashable type: list''])"
| "dict_contains d (JDict kvs) = Inl (TypeError [Lit ''unhashable type: dict''])"
| "dict_contains d v = Inr False"

text \<open>
  The wall clock is an integer number of microseconds since the epoch, the resolution of
  \<^verbatim>\<open>datetime.utcnow()\<close>. \<^verbatim>\<open>int(time.time() * 1000)\<close> truncates towards zero.
\<close>

definition timestamp_ms :: "int \<Rightarrow> int" where
  "timestamp_ms t = (if 0 \<le> t then t div 1000 else - ((- t) div 1000))"

text \<open>
  \<^verbatim>\<open>(a - b).seconds\<close> of datetimes \<open>a\<close> and \<open>b\<close>: a timedelta is normalised to days,
  seconds (0 to 86399) and microseconds, and \<^verbatim>\<open>.seconds\<close> is the middle component
  alone. \<^verbatim>\<open>.total_seconds()\<close> would be the whole difference.
\<close>

definition timedelta_seconds :: "int \<Rightarrow> int" where
  "timedelta_seconds d = (d mod 86400000000) div 1000000"

definition timedelta_days :: "int \<Rightarrow> int" where
  "timedelta_days d = d div 86400000000"

section \<open>models.py\<close>

datatype ErrorCode =
    INVALID_MESSAGE_FORMAT
  | JSON_PARSE_ERROR
  | PROCESSING_ERROR
  | TRANSLATION_ERROR
  | MODEL_LOAD_ERROR
  | UNSUPPORTED_LANGUAGE
  | RATE_LIMIT_EXCEEDED
  | CONNECTION_ERROR
  | UNEXPECTED_ERROR

fun ErrorCode_value :: "ErrorCode \<Rightarrow> string" where
  "ErrorCode_value INVALID_MESSAGE_FORMAT = ''INVALID_MESSAGE_FORMAT''"
| "ErrorCode_value JSON_PARSE_ERROR = ''JSON_PARSE_ERROR''"
| "ErrorCode_value PROCESSING_ERROR = ''PROCESSING_ERROR''"
| "ErrorCode_value TRANSLATION_ERROR = ''TRANSLATION_ERROR''"
| "ErrorCode_value MODEL_LOAD_ERROR = ''MODEL_LOAD_ERROR''"
| "ErrorCode_value UNSUPPORTED_LANGUAGE = ''UNSUPPORTED_LANGUAGE''"
| "ErrorCode_value RATE_LIMIT_EXCEEDED = ''RATE_LIMIT_EXCEEDED''"
| "ErrorCode_value CONNECTION_ERROR = ''CONNECTION_ERROR''"
| "ErrorCode_value UNEXPECTED_ERROR = ''UNEXPECTED_ERROR''"

record TranslationResult =
  tr_text :: pystr
  tr_is_final :: bool
  tr_confidence :: "real option"
  tr_source_language :: json
  tr_target_language :: json
  tr_processing_time_ms :: "real option"

record SessionInfo =
  si_session_id :: string
  si_language_pair :: string
  si_created_at :: int
  si_last_activity :: int
  si_message_count :: int
  si_chunks_processed :: int
  si_last_acknowledged_seq :: int

record ServerError =
  error_code :: ErrorCode
  error_message :: pystr
  se_session_id :: string
  retry_after :: "int option"

record ConnectionStats =
  total_connections :: int
  cs_active_connections :: int
  total_translations :: int
  successful_translations :: int
  failed_translations :: int
  avg_processing_time :: real
  cs_backpressure_events :: int

text \<open>Python's true division \<^verbatim>\<open>a / b\<close> of two ints: a float, or ZeroDivisionError.\<close>

definition py_truediv :: "int \<Rightarrow> int \<Rightarrow> exn + real" where
  "py_truediv a b =
     (if b = 0 then Inl (ZeroDivisionError [Lit ''division by zero''])
      else Inr (real_of_int a / real_of_int b))"

text \<open>
  \<^verbatim>\<open>
  def get_success_rate(self) -> float:
      if self.total_translations == 0:
          return 0.0
      return (self.successful_translations / self.total_translations) * 100
  \<close>
\<close>

definition get_success_rate :: "ConnectionStats \<Rightarrow> exn + real" where
  "get_success_rate self =
     (if total_translations self = 0 then Inr 0
      else (case py_truediv (successful_translations self) (total_translations self) of
              Inl e \<Rightarrow> Inl e
            | Inr q \<Rightarrow> Inr (q * 100)))"

section \<open>translation_processor.py: the audio conditioner\<close>

type_synonym byte = "8 word"

text \<open>
  The fields of \<^verbatim>\<open>SeamlessM4TProcessor\<close> that the modelled methods read or write.
  The API URL and key, the chunk sizes, the unused filter state and the latency metrics
  are left out, and so is logging everywhere.
\<close>

record SeamlessM4TProcessor =
  is_loaded :: bool
  sample_rate :: real
  enable_noise_suppression :: bool
  enable_agc :: bool
  enable_bandpass_filter :: bool
  bandpass_low_freq :: real
  bandpass_high_freq :: real
  agc_target_level :: real
  agc_max_gain :: real
  language_mapping :: "(string \<times> string) list"
  total_processed :: int
  processing_times :: "real list"

text \<open>The object after \<^verbatim>\<open>__init__\<close>.\<close>

definition SeamlessM4TProcessor_init :: SeamlessM4TProcessor where
  "SeamlessM4TProcessor_init =
     \<lparr> is_loaded = False,
       sample_rate = 16000,
       enable_noise_suppression = True,
       enable_agc = True,
       enable_bandpass_filter = True,
       bandpass_low_freq = 80.0,
       bandpass_high_freq = 8000.0,
       agc_target_level = 0.7,
       agc_max_gain = 3.0,
       language_mapping =
         [(''en'', ''eng''), (''hi'', ''hin''), (''bn'', ''ben''), (''te'', ''tel''),
          (''ta'', ''tam''), (''mr'', ''mar''), (''gu'', ''guj''), (''kn'', ''kan''),
          (''ml'', ''mal''), (''pa'', ''pan''), (''ur'', ''urd''), (''as'', ''asm''),
          (''or'', ''ori''), (''sd'', ''snd''), (''zh'', ''zho''), (''ar'', ''ara''),
          (''fr'', ''fra''), (''de'', ''deu''), (''es'', ''spa''), (''pt'', ''por''),
          (''ru'', ''rus''), (''ja'', ''jpn''), (''ko'', ''kor'')],
       total_processed = 0,
       processing_times = [] \<rparr>"

text \<open>
  Library functions the processor and the server call, taken as parameters: their code
  is not part of the repository.
  \<^item> \<open>uuid_ok s\<close>: \<^verbatim>\<open>uuid.UUID(s)\<close> accepts the string \<open>s\<close> (it raises ValueError otherwise);
  \<^item> \<open>b64decode\<close>, \<open>b64encode\<close>: \<^verbatim>\<open>base64.b64decode\<close> and \<^verbatim>\<open>base64.b64encode(..).decode\<close>;
  \<^item> \<open>butter n ws t\<close>, \<open>filtfilt b a x\<close>: \<^verbatim>\<open>scipy.signal.butter\<close> and
    \<^verbatim>\<open>scipy.signal.filtfilt\<close>, each of which may raise (filtfilt raises ValueError on an
    input no longer than its padding, for one).
\<close>

datatype btype = High | Band

record library =
  uuid_ok :: "string \<Rightarrow> bool"
  b64decode :: "json \<Rightarrow> exn + byte list"
  b64encode :: "byte list \<Rightarrow> string"
  butter :: "nat \<Rightarrow> real list \<Rightarrow> btype \<Rightarrow> exn + real list \<times> real list"
  filtfilt :: "real list \<Rightarrow> real list \<Rightarrow> real list \<Rightarrow> exn + real list"

text \<open>
  \<^verbatim>\<open>np.frombuffer(audio_bytes, dtype=np.int16)\<close>: two bytes per sample, low byte first;
  a buffer of odd length raises ValueError.
\<close>

fun frombuffer_int16 :: "byte list \<Rightarrow> exn + 16 word list" where
  "frombuffer_int16 [] = Inr []"
| "frombuffer_int16 [b] =
     Inl (ValueError [Lit ''buffer size must be a multiple of element size''])"
| "frombuffer_int16 (lo # hi # rest) =
     (case frombuffer_int16 rest of
        Inl e \<Rightarrow> Inl e
      | Inr ws \<Rightarrow> Inr (word_cat hi lo # ws))"

text \<open>\<^verbatim>\<open>.astype(np.float32) / 32768.0\<close> on one sample.\<close>

definition int16_to_float :: "16 word \<Rightarrow> real" where
  "int16_to_float w = real_of_int (sint w) / 32768"

text \<open>
  \<^verbatim>\<open>(x * 32767.0).astype(np.int16)\<close> on one sample: the cast drops the fraction
  (towards zero) and keeps the low 16 bits.
\<close>

definition trunc :: "real \<Rightarrow> int" where
  "trunc x = (if 0 \<le> x then \<lfloor>x\<rfloor> else \<lceil>x\<rceil>)"

definition float_to_int16 :: "real \<Rightarrow> 16 word" where
  "float_to_int16 x = word_of_int (trunc (x * 32767))"

definition tobytes :: "16 word list \<Rightarrow> byte list" where
  "tobytes ws = concat (map (\<lambda>w. [ucast w, ucast (drop_bit 8 w)]) ws)"

text \<open>\<^verbatim>\<open>np.max\<close>: the largest element; ValueError on an empty array.\<close>

fun np_max :: "real list \<Rightarrow> exn + real" where
  "np_max [] =
     Inl (ValueError [Lit ''zero-size array to reduction operation maximum which has no identity''])"
| "np_max (x # xs) = Inr (fold max xs x)"

definition apply_noise_suppression ::
  "library \<Rightarrow> SeamlessM4TProcessor \<Rightarrow> real list \<Rightarrow> exn + real list" where
  "apply_noise_suppression lib self audio =
     (let nyquist = sample_rate self / 2 in
      if nyquist = 0 then Inl (ZeroDivisionError [Lit ''float division by zero''])
      else let low = 80.0 / nyquist in
        (case butter lib 1 [low] High of
           Inl e \<Rightarrow> Inl e
         | Inr ba \<Rightarrow> filtfilt lib (fst ba) (snd ba) audio))"

text \<open>
  \<^verbatim>\<open>
  window_size = 1024
  for i in range(len(audio)):
      start = max(0, i - window_size // 2)
      end = min(len(audio), i + window_size // 2)
      window = audio[start:end]
      rms = np.sqrt(np.mean(window ** 2))
      gain = self.agc_target_level / rms if rms > 0 else 1.0
      limited_gain = min(gain, self.agc_max_gain)
      result[i] = audio[i] * limited_gain
  \<close>
\<close>

definition apply_agc :: "SeamlessM4TProcessor \<Rightarrow> real list \<Rightarrow> real list" where
  "apply_agc self audio =
     map (\<lambda>i.
            let start = max 0 (int i - 512);
                stop = min (int (length audio)) (int i + 512);
                window = take (nat (stop - start)) (drop (nat start) audio);
                rms = sqrt (sum_list (map (\<lambda>x. x * x) window) / real (length window));
                gain = (if rms > 0 then agc_target_level self / rms else 1.0);
                limited_gain = min gain (agc_max_gain self)
            in (audio ! i) * limited_gain)
         [0 ..< length audio]"

definition apply_bandpass_filter ::
  "library \<Rightarrow> SeamlessM4TProcessor \<Rightarrow> real list \<Rightarrow> exn + real list" where
  "apply_bandpass_filter lib self audio =
     (let nyquist = sample_rate self / 2 in
      if nyquist = 0 then Inl (ZeroDivisionError [Lit ''float division by zero''])
      else let low = bandpass_low_freq self / nyquist;
               high = bandpass_high_freq self / nyquist in
        (case butter lib 2 [low, high] Band of
           Inl e \<Rightarrow> Inl e
         | Inr ba \<Rightarrow> filtfilt lib (fst ba) (snd ba) audio))"

definition normalize_audio :: "real list \<Rightarrow> exn + real list" where
  "normalize_audio audio =
     (case np_max (map abs audio) of
        Inl e \<Rightarrow> Inl e
      | Inr max_amplitude \<Rightarrow>
          if max_amplitude = 0 then Inr audio
          else let target_amplitude = 0.8;
                   scale = target_amplitude / max_amplitude
               in Inr (map (\<lambda>x. x * scale) audio))"

text \<open>The body of the \<^verbatim>\<open>try\<close> of \<^verbatim>\<open>_preprocess_audio\<close>.\<close>

definition preprocess_audio_try ::
  "library \<Rightarrow> SeamlessM4TProcessor \<Rightarrow> byte list \<Rightarrow> exn + byte list" where
  "preprocess_audio_try lib self audio_bytes =
     (case frombuffer_int16 audio_bytes of
        Inl e \<Rightarrow> Inl e
      | Inr samples \<Rightarrow>
     (case (if enable_noise_suppression self
            then apply_noise_suppression lib self (map int16_to_float samples)
            else Inr (map int16_to_float samples)) of
        Inl e \<Rightarrow> Inl e
      | Inr suppressed \<Rightarrow>
     (let levelled = (if enable_agc self then apply_agc self suppressed else suppressed) in
     (case (if enable_bandpass_filter self
            then apply_bandpass_filter lib self levelled
            else Inr levelled) of
        Inl e \<Rightarrow> Inl e
      | Inr filtered \<Rightarrow>
     (case normalize_audio filtered of
        Inl e \<Rightarrow> Inl e
      | Inr processed_audio \<Rightarrow> Inr (tobytes (map float_to_int16 processed_audio)))))))"

text \<open>
  \<^verbatim>\<open>_preprocess_audio\<close>: whatever the body raises is caught and raised again as
  \<^verbatim>\<open>ProcessorError(f"Audio preprocessing failed: {str(e)}")\<close>.
\<close>

definition preprocessing_failed :: "exn \<Rightarrow> exn" where
  "preprocessing_failed e = ProcessorError (Lit ''Audio preprocessing failed: '' # str_exn e)"

definition preprocess_audio ::
  "library \<Rightarrow> SeamlessM4TProcessor \<Rightarrow> byte list \<Rightarrow> exn + byte list" where
  "preprocess_audio lib self audio_bytes =
     (case preprocess_audio_try lib self audio_bytes of
        Inl e \<Rightarrow> Inl (preprocessing_failed e)
      | Inr processed \<Rightarrow> Inr processed)"

text \<open>
  \<^verbatim>\<open>
  def _apply_peak_safety_normalization(self, audio):
      if len(audio) == 0:
          return audio
      peak_amplitude = np.max(np.abs(audio))
      max_safe_amplitude = 0.95
      if peak_amplitude > max_safe_amplitude:
          scale = max_safe_amplitude / peak_amplitude
          return audio * scale
      return audio
  \<close>
\<close>

definition apply_peak_safety_normalization :: "real list \<Rightarrow> exn + real list" where
  "apply_peak_safety_normalization audio =
     (if length audio = 0 then Inr audio
      else (case np_max (map abs audio) of
              Inl e \<Rightarrow> Inl e
            | Inr peak_amplitude \<Rightarrow>
                let max_safe_amplitude = 0.95 in
                if peak_amplitude > max_safe_amplitude
                then let scale = max_safe_amplitude / peak_amplitude
                     in Inr (map (\<lambda>x. x * scale) audio)
                else Inr audio))"

definition postprocess_audio_try :: "byte list \<Rightarrow> exn + byte list" where
  "postprocess_audio_try audio_data =
     (case frombuffer_int16 audio_data of
        Inl e \<Rightarrow> Inl e
      | Inr samples \<Rightarrow>
     (case apply_peak_safety_normalization (map int16_to_float samples) of
        Inl e \<Rightarrow> Inl e
      | Inr processed_audio \<Rightarrow> Inr (tobytes (map float_to_int16 processed_audio))))"

text \<open>\<^verbatim>\<open>_postprocess_audio\<close> returns the original audio if post-processing fails.\<close>

definition postprocess_audio :: "byte list \<Rightarrow> byte list" where
  "postprocess_audio audio_data =
     (case postprocess_audio_try audio_data of
        Inl e \<Rightarrow> audio_data
      | Inr processed \<Rightarrow> processed)"

section \<open>translation_processor.py: the translation gateway\<close>

text \<open>
  The engine is the remote service. What one \<^verbatim>\<open>session.post\<close> does is a \<open>reply\<close>:
  the transport raises (connection failure, the 60 second timeout), or a response comes
  back with its status, its body text and the result of \<^verbatim>\<open>response.json()\<close> (which may
  raise too; the parsed body is a JSON object, as the annotation of
  \<^verbatim>\<open>_parse_seamless_m4t_response\<close> says). The engine of one call is a function from the
  attempt number to the reply that attempt gets.
\<close>

datatype reply =
    Transport_failure exn
  | Response nat string "exn + (string \<times> json) list"

text \<open>What a call does that the outside can see: a request sent, a backoff sleep.\<close>

datatype engine_event = Post nat | Sleep real

definition parse_seamless_m4t_response ::
  "library \<Rightarrow> (string \<times> json) list \<Rightarrow> exn + byte list" where
  "parse_seamless_m4t_response lib response =
     (case (case map_of response ''audio_chunks'' of
              None \<Rightarrow> Inl (ProcessorError [Lit ''No audio in API response''])
            | Some audio_base64 \<Rightarrow> b64decode lib audio_base64) of
        Inl e \<Rightarrow> Inl (ProcessorError (Lit ''Failed to parse API response: '' # str_exn e))
      | Inr audio \<Rightarrow> Inr audio)"

text \<open>The body of the \<^verbatim>\<open>try\<close> inside the retry loop: one request.\<close>

definition post_once :: "library \<Rightarrow> reply \<Rightarrow> exn + byte list" where
  "post_once lib r =
     (case r of
        Transport_failure e \<Rightarrow> Inl e
      | Response status error_text body \<Rightarrow>
          if \<not> status < 400
          then Inl (ProcessorError
                 [Lit ''API request failed: '', Num (int status), Lit '' - '', Lit error_text])
          else (case body of
                  Inl e \<Rightarrow> Inl e
                | Inr result \<Rightarrow> parse_seamless_m4t_response lib result))"

text \<open>
  \<^verbatim>\<open>
  for attempt in range(max_retries):
      try:
          ... return self._parse_seamless_m4t_response(result)
      except Exception as e:
          if attempt < max_retries - 1:
              await asyncio.sleep(1.0 * (attempt + 1))
              continue
          raise ProcessorError(f"Translation failed after {max_retries} attempts: {str(e)}")
  \<close>
  The list argument is what is left of \<^verbatim>\<open>range(max_retries)\<close>. A loop that runs out of
  attempts without returning or raising falls off the end of the function, which
  returns \<^verbatim>\<open>None\<close>.
\<close>

fun retry_loop ::
  "library \<Rightarrow> (nat \<Rightarrow> reply) \<Rightarrow> nat \<Rightarrow> nat list \<Rightarrow> engine_event list \<times> (exn + byte list option)"
where
  "retry_loop lib engine max_retries [] = ([], Inr None)"
| "retry_loop lib engine max_retries (attempt # rest) =
     (case post_once lib (engine attempt) of
        Inr audio \<Rightarrow> ([Post attempt], Inr (Some audio))
      | Inl e \<Rightarrow>
          if int attempt < int max_retries - 1
          then (Post attempt # Sleep (1.0 * real (attempt + 1))
                  # fst (retry_loop lib engine max_retries rest),
                snd (retry_loop lib engine max_retries rest))
          else ([Post attempt],
                Inl (ProcessorError
                  ([Lit ''Translation failed after '', Num (int max_retries), Lit '' attempts: '']
                   @ str_exn e))))"

text \<open>
  The request payload is a dict display that ends with \<^verbatim>\<open>"do_sample": false\<close>. Python's
  constant is \<^verbatim>\<open>False\<close>; \<^verbatim>\<open>false\<close> is a name, looked up when the display is evaluated, that
  is, on every call. The module binds no such name (its globals are the imported
  modules, the classes it imports and defines, and \<^verbatim>\<open>logger\<close>) and it is no builtin, so
  the lookup raises NameError. The entries before it (the base64 audio, the two language
  codes, the task, \<^verbatim>\<open>max_new_tokens\<close>) evaluate without effect.
\<close>

definition request_payload :: "string \<Rightarrow> json \<Rightarrow> json \<Rightarrow> exn + json" where
  "request_payload audio_base64 source_language target_language =
     Inl (NameError [Lit ''name false is not defined''])"

text \<open>
  \<^verbatim>\<open>_translate_with_seamless_m4t\<close>: the payload is built before the loop and outside
  its \<^verbatim>\<open>try\<close>.
\<close>

definition translate_with_seamless_m4t ::
  "library \<Rightarrow> (nat \<Rightarrow> reply) \<Rightarrow> byte list \<Rightarrow> json \<Rightarrow> json
     \<Rightarrow> engine_event list \<times> (exn + byte list option)" where
  "translate_with_seamless_m4t lib engine audio_data source_language target_language =
     (let audio_base64 = b64encode lib audio_data in
      case request_payload audio_base64 source_language target_language of
        Inl e \<Rightarrow> ([], Inl e)
      | Inr payload \<Rightarrow>
          (let max_retries = 3 in retry_loop lib engine max_retries (upt 0 max_retries)))"

definition extract_text_placeholder :: "byte list \<Rightarrow> pystr" where
  "extract_text_placeholder audio_data =
     [Lit ''Translated speech ('', Num (int (length audio_data)), Lit '' bytes)'']"

definition is_language_supported ::
  "SeamlessM4TProcessor \<Rightarrow> json \<Rightarrow> json \<Rightarrow> exn + bool" where
  "is_language_supported self source_language target_language =
     (case dict_contains (language_mapping self) source_language of
        Inl e \<Rightarrow> Inl e
      | Inr source_supported \<Rightarrow>
     (case dict_contains (language_mapping self) target_language of
        Inl e \<Rightarrow> Inl e
      | Inr target_supported \<Rightarrow>
          if \<not> source_supported \<or> \<not> target_supported then Inr False else Inr True))"

text \<open>
  The body of the \<^verbatim>\<open>try\<close> of \<^verbatim>\<open>translate_audio\<close>. The result is the requests and
  sleeps made, the processor with its statistics updated, and the value returned or the
  exception raised. \<open>elapsed\<close> is the wall-clock time, in microseconds, between the entry
  and the moment the metrics are taken.
\<close>

definition translate_audio_try ::
  "library \<Rightarrow> SeamlessM4TProcessor \<Rightarrow> (nat \<Rightarrow> reply) \<Rightarrow> int \<Rightarrow> json \<Rightarrow> json \<Rightarrow> json \<Rightarrow> json
     \<Rightarrow> engine_event list \<times> SeamlessM4TProcessor \<times> (exn + TranslationResult)" where
  "translate_audio_try lib self engine elapsed audio_data source_language target_language session_id =
     (if \<not> is_loaded self
      then ([], self, Inl (ProcessorError [Lit ''SeamlessM4T processor not initialized'']))
      else
     (case is_language_supported self source_language target_language of
        Inl e \<Rightarrow> ([], self, Inl e)
      | Inr supported \<Rightarrow>
          if \<not> supported
          then ([], self, Inl (ProcessorError
                  [Lit ''Unsupported language pair: '', Str source_language,
                   Lit '' -> '', Str target_language]))
          else
     (case b64decode lib audio_data of
        Inl e \<Rightarrow> ([], self, Inl e)
      | Inr audio_bytes \<Rightarrow>
     (case preprocess_audio lib self audio_bytes of
        Inl e \<Rightarrow> ([], self, Inl e)
      | Inr preprocessed_audio \<Rightarrow>
     (let sent = translate_with_seamless_m4t lib engine preprocessed_audio
                   source_language target_language in
      case snd sent of
        Inl e \<Rightarrow> (fst sent, self, Inl e)
      | Inr None \<Rightarrow> (fst sent, self, Inl (TypeError [Lit ''object of type NoneType has no len()'']))
      | Inr (Some translated_audio) \<Rightarrow>
          (let final_audio = postprocess_audio translated_audio;
               processing_time = real_of_int elapsed / 1000
           in (fst sent,
               self\<lparr> total_processed := total_processed self + 1,
                     processing_times := processing_times self @ [processing_time] \<rparr>,
               Inr \<lparr> tr_text = extract_text_placeholder final_audio,
                     tr_is_final = True,
                     tr_confidence = Some 0.85,
                     tr_source_language = source_language,
                     tr_target_language = target_language,
                     tr_processing_time_ms = Some processing_time \<rparr>)))))))"

text \<open>
  \<^verbatim>\<open>translate_audio\<close>: a ProcessorError passes through; any other exception becomes
  \<^verbatim>\<open>ProcessorError(f"S2S translation failed: {str(e)}")\<close>.
\<close>

definition translate_audio ::
  "library \<Rightarrow> SeamlessM4TProcessor \<Rightarrow> (nat \<Rightarrow> reply) \<Rightarrow> int \<Rightarrow> json \<Rightarrow> json \<Rightarrow> json \<Rightarrow> json
     \<Rightarrow> engine_event list \<times> SeamlessM4TProcessor \<times> (exn + TranslationResult)" where
  "translate_audio lib self engine elapsed audio_data source_language target_language session_id =
     (let r = translate_audio_try lib self engine elapsed audio_data
                source_language target_language session_id in
      case snd (snd r) of
        Inr result \<Rightarrow> r
      | Inl e \<Rightarrow>
          if isinstance_ProcessorError e then r
          else (fst r, fst (snd r),
                Inl (ProcessorError (Lit ''S2S translation failed: '' # str_exn e))))"

section \<open>main.py: the session registry and the WebSocket manager\<close>

text \<open>
  An outbound message is the dict literal the code builds, in the order of its keys. Its
  values are strings, formatted strings, ints, floats, JSON values taken over from the
  inbound message, or \<^verbatim>\<open>None\<close>.
\<close>

datatype pyval = PStr string | PText pystr | PInt int | PFloat real | PJson json | PNone

type_synonym outbound = "(string \<times> pyval) list"

text \<open>
  What the server does that the outside can see, in order: a WebSocket (a number names
  the object) accepted or closed, a message sent on it or a send that raised, the call of
  \<^verbatim>\<open>translation_processor.translate_audio\<close> with its keyword arguments, and what that
  call did at the engine.
\<close>

datatype event =
    Accepted nat
  | Closed nat int string
  | Sent nat outbound
  | Send_failed nat outbound
  | Call_translate_audio "(string \<times> json) list"
  | Engine engine_event

text \<open>One entry of \<^verbatim>\<open>WebSocketManager.session_metadata\<close>.\<close>

record metadata =
  client_ip :: string
  user_agent :: string
  md_language_pair :: string
  connected_at :: int
  last_activity :: int
  message_count :: int
  chunks_processed :: int
  last_acknowledged_seq :: json

text \<open>
  The global \<^verbatim>\<open>translation_processor\<close> as main.py uses it: the method
  \<^verbatim>\<open>translate_audio\<close>, called with keyword arguments, gives the engine events of the
  call, the wall-clock time the call took (microseconds) and the result or the exception;
  the attribute \<^verbatim>\<open>backpressure_events\<close> is \<open>None\<close> when the object has no such attribute.
\<close>

record processor_object =
  translate_audio_method ::
    "(string \<times> json) list \<Rightarrow> engine_event list \<times> int \<times> (exn + TranslationResult)"
  backpressure_events_attr :: "int option"

text \<open>
  The server's state: the two dicts of the global \<^verbatim>\<open>websocket_manager\<close>, the globals
  \<^verbatim>\<open>active_sessions\<close> and \<^verbatim>\<open>connection_stats\<close>, and the environment: the wall clock
  \<open>now\<close> (microseconds), the WebSockets whose \<^verbatim>\<open>send_text\<close> raises, and the events so far.
  A dict is an association list with distinct keys, in insertion order.
\<close>

record server =
  active_connections :: "(string \<times> nat) list"
  session_metadata :: "(string \<times> metadata) list"
  active_sessions :: "(string \<times> SessionInfo) list"
  connection_stats :: ConnectionStats
  now :: int
  failing :: "nat set"
  wire :: "event list"

text \<open>
  \<^verbatim>\<open>WebSocketManager.connect\<close>; \<open>client_info\<close> is the client's address, its user agent
  and the language pair header. \<^verbatim>\<open>websocket.accept()\<close> is taken to succeed.
\<close>

definition connect :: "server \<Rightarrow> nat \<Rightarrow> string \<Rightarrow> string \<times> string \<times> string \<Rightarrow> server" where
  "connect st websocket session_id client_info =
     (let conns = AList.update session_id websocket (active_connections st);
          md = \<lparr> client_ip = fst client_info,
                 user_agent = fst (snd client_info),
                 md_language_pair = snd (snd client_info),
                 connected_at = now st,
                 last_activity = now st,
                 message_count = 0,
                 chunks_processed = 0,
                 last_acknowledged_seq = JInt 0 \<rparr>
      in st\<lparr> active_connections := conns,
              session_metadata := AList.update session_id md (session_metadata st),
              connection_stats := (connection_stats st)
                \<lparr> total_connections := total_connections (connection_stats st) + 1,
                  cs_active_connections := int (length conns) \<rparr>,
              wire := wire st @ [Accepted websocket] \<rparr>)"

definition disconnect :: "server \<Rightarrow> string \<Rightarrow> server" where
  "disconnect st session_id =
     (let conns = (if map_of (active_connections st) session_id \<noteq> None
                   then AList.delete session_id (active_connections st)
                   else active_connections st);
          mds = (if map_of (session_metadata st) session_id \<noteq> None
                 then AList.delete session_id (session_metadata st)
                 else session_metadata st)
      in st\<lparr> active_connections := conns,
              session_metadata := mds,
              connection_stats := (connection_stats st)
                \<lparr> cs_active_connections := int (length conns) \<rparr> \<rparr>)"

text \<open>
  \<^verbatim>\<open>
  async def send_message(self, session_id, message):
      if session_id in self.active_connections:
          websocket = self.active_connections[session_id]
          try:
              await websocket.send_text(json.dumps(message))
              if session_id in self.session_metadata:
                  self.session_metadata[session_id]["last_activity"] = datetime.utcnow()
                  self.session_metadata[session_id]["message_count"] += 1
          except Exception as e:
              self.disconnect(session_id)
  \<close>
\<close>

definition send_message :: "server \<Rightarrow> string \<Rightarrow> outbound \<Rightarrow> server" where
  "send_message st session_id message =
     (case map_of (active_connections st) session_id of
        None \<Rightarrow> st
      | Some websocket \<Rightarrow>
          if websocket \<in> failing st
          then disconnect (st\<lparr> wire := wire st @ [Send_failed websocket message] \<rparr>) session_id
          else (case map_of (session_metadata st) session_id of
                  None \<Rightarrow> st\<lparr> wire := wire st @ [Sent websocket message] \<rparr>
                | Some md \<Rightarrow>
                    st\<lparr> wire := wire st @ [Sent websocket message],
                        session_metadata :=
                          AList.update session_id
                            (md\<lparr> last_activity := now st,
                                 message_count := message_count md + 1 \<rparr>)
                            (session_metadata st) \<rparr>))"

text \<open>
  \<^verbatim>\<open>
  async def send_acknowledgment(self, session_id, sequence_id):
      ack_message = {"session_id": session_id, "message_type": "ack",
                     "ack_sequence_id": sequence_id, "timestamp": int(time.time() * 1000)}
      if session_id in self.session_metadata:
          self.session_metadata[session_id]["last_acknowledged_seq"] = sequence_id
      await self.send_message(session_id, ack_message)
  \<close>
\<close>

definition ack_message :: "string \<Rightarrow> json \<Rightarrow> int \<Rightarrow> outbound" where
  "ack_message session_id sequence_id t =
     [(''session_id'', PStr session_id),
      (''message_type'', PStr ''ack''),
      (''ack_sequence_id'', PJson sequence_id),
      (''timestamp'', PInt (timestamp_ms t))]"

definition send_acknowledgment :: "server \<Rightarrow> string \<Rightarrow> json \<Rightarrow> server" where
  "send_acknowledgment st session_id sequence_id =
     (let st1 = (case map_of (session_metadata st) session_id of
                   None \<Rightarrow> st
                 | Some md \<Rightarrow>
                     st\<lparr> session_metadata :=
                           AList.update session_id
                             (md\<lparr> last_acknowledged_seq := sequence_id \<rparr>)
                             (session_metadata st) \<rparr>)
      in send_message st1 session_id (ack_message session_id sequence_id (now st)))"

definition error_outbound :: "string \<Rightarrow> ServerError \<Rightarrow> int \<Rightarrow> outbound" where
  "error_outbound session_id error t =
     [(''session_id'', PStr session_id),
      (''message_type'', PStr ''error''),
      (''error_code'', PStr (ErrorCode_value (error_code error))),
      (''error_message'', PText (error_message error)),
      (''timestamp'', PInt (timestamp_ms t))]
     @ (case retry_after error of
          None \<Rightarrow> []
        | Some r \<Rightarrow> if r \<noteq> 0 then [(''retry_after'', PInt r)] else [])"

definition send_error_message :: "server \<Rightarrow> string \<Rightarrow> ServerError \<Rightarrow> server" where
  "send_error_message st session_id error =
     send_message st session_id (error_outbound session_id error (now st))"

text \<open>\<^verbatim>\<open>ServerError(error_code=..., error_message=..., session_id=...)\<close>.\<close>

definition new_ServerError :: "ErrorCode \<Rightarrow> pystr \<Rightarrow> string \<Rightarrow> ServerError" where
  "new_ServerError code msg session_id =
     \<lparr> error_code = code, error_message = msg, se_session_id = session_id,
       retry_after = None \<rparr>"

section \<open>main.py: the protocol engine\<close>

definition transcript_message ::
  "string \<Rightarrow> json \<Rightarrow> json \<Rightarrow> TranslationResult \<Rightarrow> real \<Rightarrow> int \<Rightarrow> outbound" where
  "transcript_message session_id chunk_index sequence_id translation_result processing_time t =
     (let kind = (if tr_is_final translation_result
                  then ''final_transcript'' else ''partial_transcript'')
      in [(''session_id'', PStr session_id),
          (''message_type'', PStr kind),
          (''chunk_index'', PJson chunk_index),
          (''sequence_id'', PJson sequence_id),
          (kind, PText (tr_text translation_result)),
          (''confidence'',
             (case tr_confidence translation_result of None \<Rightarrow> PNone | Some c \<Rightarrow> PFloat c)),
          (''processing_time_ms'', PFloat processing_time),
          (''timestamp'', PInt (timestamp_ms t))])"

text \<open>
  The keyword arguments of the call
  \<^verbatim>\<open>
  translation_processor.translate_audio(
      audio_data=audio_chunk,
      source_language=language_pair.get("source", "en"),
      target_language=language_pair.get("target", "hi"),
      session_id=session_id,
      sequence_id=sequence_id)
  \<close>
\<close>

definition translate_audio_kwargs ::
  "json \<Rightarrow> json \<Rightarrow> json \<Rightarrow> string \<Rightarrow> json \<Rightarrow> (string \<times> json) list" where
  "translate_audio_kwargs audio_chunk source target session_id sequence_id =
     [(''audio_data'', audio_chunk),
      (''source_language'', source),
      (''target_language'', target),
      (''session_id'', JStr session_id),
      (''sequence_id'', sequence_id)]"

text \<open>
  The statistics after a translation that succeeded: the two counters go up, then the
  running average is taken (a division by the new total).
\<close>

definition count_success :: "ConnectionStats \<Rightarrow> real \<Rightarrow> ConnectionStats \<times> exn option" where
  "count_success stats processing_time =
     (let counted = stats\<lparr> total_translations := total_translations stats + 1,
                           successful_translations := successful_translations stats + 1 \<rparr>
      in if total_translations counted = 0
         then (counted, Some (ZeroDivisionError [Lit ''float division by zero'']))
         else (counted\<lparr> avg_processing_time :=
                 (avg_processing_time counted * real_of_int (total_translations counted - 1)
                    + processing_time) / real_of_int (total_translations counted) \<rparr>,
               None))"

text \<open>
  The body of the \<^verbatim>\<open>try\<close> of \<^verbatim>\<open>process_audio_chunk\<close>, in two parts: each gives the
  state reached and the exception raised there, if any. The order is the source's: the
  check of the payload and the acknowledgment; then the chunk counter, the call of the
  processor, the transcript message and the statistics.
\<close>

definition translate_and_reply ::
  "processor_object \<Rightarrow> server \<Rightarrow> string \<Rightarrow> (string \<times> json) list \<Rightarrow> server \<times> exn option" where
  "translate_and_reply translation_processor st1 session_id message =
     (let audio_chunk = dict_get message ''audio_chunk'' JNull;
          chunk_index = dict_get message ''chunk_index'' (JInt 0);
          sequence_id = dict_get message ''sequence_id'' JNull;
          language_pair = dict_get message ''language_pair'' (JDict []);
          st2 = (case map_of (session_metadata st1) session_id of
                   None \<Rightarrow> st1
                 | Some md \<Rightarrow>
                     st1\<lparr> session_metadata :=
                            AList.update session_id
                              (md\<lparr> chunks_processed := chunks_processed md + 1 \<rparr>)
                              (session_metadata st1) \<rparr>);
          start_time = now st2
      in
     (case attr_get language_pair ''source'' (JStr ''en'') of
        Inl e \<Rightarrow> (st2, Some e)
      | Inr source \<Rightarrow>
     (case attr_get language_pair ''target'' (JStr ''hi'') of
        Inl e \<Rightarrow> (st2, Some e)
      | Inr target \<Rightarrow>
     (let kwargs = translate_audio_kwargs audio_chunk source target session_id sequence_id;
          outcome = translate_audio_method translation_processor kwargs;
          st3 = st2\<lparr> wire := wire st2 @ Call_translate_audio kwargs # map Engine (fst outcome),
                     now := now st2 + fst (snd outcome) \<rparr>
      in
     (case snd (snd outcome) of
        Inl e \<Rightarrow> (st3, Some e)
      | Inr translation_result \<Rightarrow>
     (let processing_time = real_of_int (now st3 - start_time) / 1000;
          st4 = send_message st3 session_id
                  (transcript_message session_id chunk_index sequence_id translation_result
                     processing_time (now st3));
          counted = count_success (connection_stats st4) processing_time;
          st5 = st4\<lparr> connection_stats := fst counted \<rparr>
      in
     (case snd counted of
        Some e \<Rightarrow> (st5, Some e)
      | None \<Rightarrow>
     (case backpressure_events_attr translation_processor of
        None \<Rightarrow> (st5, Some (AttributeError [Lit ''object has no attribute backpressure_events'']))
      | Some n \<Rightarrow>
          (st5\<lparr> connection_stats := (connection_stats st5)\<lparr> cs_backpressure_events := n \<rparr> \<rparr>,
           None)))))))))"

definition process_audio_chunk_try ::
  "processor_object \<Rightarrow> server \<Rightarrow> string \<Rightarrow> (string \<times> json) list \<Rightarrow> server \<times> exn option" where
  "process_audio_chunk_try translation_processor st session_id message =
     (let audio_chunk = dict_get message ''audio_chunk'' JNull;
          sequence_id = dict_get message ''sequence_id'' JNull
      in
      if \<not> truthy audio_chunk
      then (st, Some (ValueError [Lit ''Audio chunk data is required'']))
      else translate_and_reply translation_processor
             (if sequence_id \<noteq> JNull
              then send_acknowledgment st session_id sequence_id else st)
             session_id message)"

text \<open>
  \<^verbatim>\<open>process_audio_chunk\<close>: the two handlers. Both count a failed translation and send
  an error message; then the function returns normally.
\<close>

definition count_failure :: "server \<Rightarrow> server" where
  "count_failure st =
     st\<lparr> connection_stats := (connection_stats st)
           \<lparr> failed_translations := failed_translations (connection_stats st) + 1 \<rparr> \<rparr>"

definition handle_chunk_failure :: "server \<times> exn option \<Rightarrow> string \<Rightarrow> server" where
  "handle_chunk_failure r session_id =
     (case snd r of
        None \<Rightarrow> fst r
      | Some e \<Rightarrow>
          if isinstance_ProcessorError e
          then send_error_message (count_failure (fst r)) session_id
                 (new_ServerError TRANSLATION_ERROR (str_exn e) session_id)
          else send_error_message (count_failure (fst r)) session_id
                 (new_ServerError UNEXPECTED_ERROR (str_exn e) session_id))"

definition process_audio_chunk ::
  "processor_object \<Rightarrow> server \<Rightarrow> string \<Rightarrow> (string \<times> json) list \<Rightarrow> server" where
  "process_audio_chunk translation_processor st session_id message =
     handle_chunk_failure
       (process_audio_chunk_try translation_processor st session_id message) session_id"

text \<open>
  \<^verbatim>\<open>uuid.UUID(v)\<close>: a string is accepted or raises ValueError; \<^verbatim>\<open>None\<close> raises
  TypeError and any other value AttributeError (it has no \<^verbatim>\<open>replace\<close>).
\<close>

fun uuid_UUID :: "library \<Rightarrow> json \<Rightarrow> exn + unit" where
  "uuid_UUID lib (JStr s) =
     (if uuid_ok lib s then Inr ()
      else Inl (ValueError [Lit ''badly formed hexadecimal UUID string'']))"
| "uuid_UUID lib JNull =
     Inl (TypeError [Lit ''one of the hex, bytes, bytes_le, fields, or int arguments must be given''])"
| "uuid_UUID lib v = Inl (AttributeError [Lit ''object has no attribute replace''])"

text \<open>
  \<^verbatim>\<open>
  def validate_inbound_message(message):
      required_fields = ["session_id", "audio_chunk"]
      for field in required_fields:
          if field not in message:
              return False
      try:
          uuid.UUID(message["session_id"])
      except ValueError:
          return False
      audio_chunk = message.get("audio_chunk")
      if not isinstance(audio_chunk, str) or len(audio_chunk) == 0:
          return False
      return True
  \<close>
\<close>

definition validate_inbound_message :: "library \<Rightarrow> (string \<times> json) list \<Rightarrow> exn + bool" where
  "validate_inbound_message lib message =
     (if list_ex (\<lambda>field. map_of message field = None) [''session_id'', ''audio_chunk'']
      then Inr False
      else (case uuid_UUID lib (dict_get message ''session_id'' JNull) of
              Inl e \<Rightarrow> if isinstance_ValueError e then Inr False else Inl e
            | Inr u \<Rightarrow>
                (case dict_get message ''audio_chunk'' JNull of
                   JStr audio_chunk \<Rightarrow> if length audio_chunk = 0 then Inr False else Inr True
                 | _ \<Rightarrow> Inr False)))"

text \<open>
  \<^verbatim>\<open>process_websocket_message\<close>. The text received is \<open>None\<close> when \<^verbatim>\<open>json.loads\<close> rejects
  it and the parsed JSON object otherwise (a text whose top level is no object is left
  out of the model). Every exception is caught here, so the function always returns.
\<close>

definition process_websocket_message ::
  "library \<Rightarrow> processor_object \<Rightarrow> server \<Rightarrow> string \<Rightarrow> (string \<times> json) list option \<Rightarrow> server"
where
  "process_websocket_message lib translation_processor st session_id data =
     (case data of
        None \<Rightarrow>
          send_error_message st session_id
            (new_ServerError JSON_PARSE_ERROR [Lit ''Invalid JSON format''] session_id)
      | Some message \<Rightarrow>
          (case validate_inbound_message lib message of
             Inl e \<Rightarrow>
               send_error_message st session_id
                 (new_ServerError PROCESSING_ERROR (str_exn e) session_id)
           | Inr valid \<Rightarrow>
               if \<not> valid
               then send_error_message st session_id
                      (new_ServerError INVALID_MESSAGE_FORMAT
                         [Lit ''Message format is invalid''] session_id)
               else (let message_type = dict_get message ''message_type'' (JStr ''audio_chunk'')
                     in if message_type = JStr ''audio_chunk''
                        then process_audio_chunk translation_processor st session_id message
                        else if message_type = JStr ''keepalive'' then st
                        else st)))"

text \<open>
  What \<^verbatim>\<open>asyncio.wait_for(websocket.receive_text(), timeout=30.0)\<close> gives in one turn of
  the loop: a text, the timeout, the peer's disconnect, or another exception.
\<close>

datatype inbound =
    Text "(string \<times> json) list option"
  | Wait_timeout
  | Disconnect
  | Receive_error exn

definition keepalive_message :: "string \<Rightarrow> int \<Rightarrow> outbound" where
  "keepalive_message session_id t =
     [(''session_id'', PStr session_id),
      (''message_type'', PStr ''keepalive''),
      (''timestamp'', PInt (timestamp_ms t))]"

definition touch_session :: "server \<Rightarrow> string \<Rightarrow> server" where
  "touch_session st session_id =
     (case map_of (active_sessions st) session_id of
        None \<Rightarrow> st
      | Some info \<Rightarrow>
          st\<lparr> active_sessions :=
                AList.update session_id (info\<lparr> si_last_activity := now st \<rparr>)
                  (active_sessions st) \<rparr>)"

text \<open>
  The \<^verbatim>\<open>while True\<close> loop of \<^verbatim>\<open>websocket_endpoint\<close> over the inbound units that have
  arrived so far. The result says whether the loop has ended (\<^verbatim>\<open>break\<close>); it has not
  when the units are used up, and the task then waits for the next one.
\<close>

fun message_loop ::
  "library \<Rightarrow> processor_object \<Rightarrow> string \<Rightarrow> inbound list \<Rightarrow> server \<Rightarrow> server \<times> bool" where
  "message_loop lib P session_id [] st = (st, False)"
| "message_loop lib P session_id (Text data # rest) st =
     message_loop lib P session_id rest
       (process_websocket_message lib P (touch_session st session_id) session_id data)"
| "message_loop lib P session_id (Wait_timeout # rest) st =
     message_loop lib P session_id rest
       (send_message st session_id (keepalive_message session_id (now st)))"
| "message_loop lib P session_id (Disconnect # rest) st = (st, True)"
| "message_loop lib P session_id (Receive_error e # rest) st =
     (send_error_message st session_id
        (new_ServerError PROCESSING_ERROR (str_exn e) session_id), True)"

definition connected_message :: "string \<Rightarrow> int \<Rightarrow> outbound" where
  "connected_message session_id t =
     [(''session_id'', PStr session_id),
      (''message_type'', PStr ''connected''),
      (''timestamp'', PInt (timestamp_ms t))]"

text \<open>The \<^verbatim>\<open>finally\<close> of \<^verbatim>\<open>websocket_endpoint\<close>.\<close>

definition endpoint_cleanup :: "server \<Rightarrow> string \<Rightarrow> server" where
  "endpoint_cleanup st session_id =
     (let st1 = disconnect st session_id in
      if map_of (active_sessions st1) session_id \<noteq> None
      then st1\<lparr> active_sessions := AList.delete session_id (active_sessions st1) \<rparr>
      else st1)"

definition websocket_endpoint ::
  "library \<Rightarrow> processor_object \<Rightarrow> server \<Rightarrow> nat \<Rightarrow> string \<Rightarrow> string \<times> string \<times> string
     \<Rightarrow> inbound list \<Rightarrow> server" where
  "websocket_endpoint lib P st websocket session_id client_info inputs =
     (if \<not> uuid_ok lib session_id
      then st\<lparr> wire := wire st @ [Closed websocket 4000 ''Invalid session ID format''] \<rparr>
      else
     (let st1 = connect st websocket session_id client_info;
          st2 = st1\<lparr> active_sessions :=
                       AList.update session_id
                         \<lparr> si_session_id = session_id,
                           si_language_pair = snd (snd client_info),
                           si_created_at = now st1,
                           si_last_activity = now st1,
                           si_message_count = 0,
                           si_chunks_processed = 0,
                           si_last_acknowledged_seq = 0 \<rparr>
                         (active_sessions st1) \<rparr>;
          st3 = send_message st2 session_id (connected_message session_id (now st2));
          r = message_loop lib P session_id inputs st3
      in if snd r then endpoint_cleanup (fst r) session_id else fst r))"

section \<open>main.py: housekeeping\<close>

text \<open>
  One turn of the \<^verbatim>\<open>while True\<close> loop of \<^verbatim>\<open>session_cleanup_task\<close>, up to the sleep:
  \<^verbatim>\<open>
  current_time = datetime.utcnow()
  inactive_sessions = []
  for session_id, session_info in active_sessions.items():
      if (current_time - session_info.last_activity).seconds > 300:
          inactive_sessions.append(session_id)
  for session_id in inactive_sessions:
      websocket_manager.disconnect(session_id)
      if session_id in active_sessions:
          del active_sessions[session_id]
  \<close>
\<close>

definition evict_session :: "string \<Rightarrow> server \<Rightarrow> server" where
  "evict_session session_id st =
     (let st1 = disconnect st session_id in
      if map_of (active_sessions st1) session_id \<noteq> None
      then st1\<lparr> active_sessions := AList.delete session_id (active_sessions st1) \<rparr>
      else st1)"

definition session_cleanup_sweep :: "server \<Rightarrow> server" where
  "session_cleanup_sweep st =
     (let current_time = now st;
          inactive_sessions =
            map fst (filter (\<lambda>item. timedelta_seconds (current_time - si_last_activity (snd item)) > 300)
                       (active_sessions st))
      in fold evict_session inactive_sessions st)"

text \<open>
  The task over the wall-clock readings of its successive turns (one every 60 seconds
  or so): each turn reads the clock and sweeps.
\<close>

fun session_cleanup_task :: "int list \<Rightarrow> server \<Rightarrow> server" where
  "session_cleanup_task [] st = st"
| "session_cleanup_task (t # ts) st =
     session_cleanup_task ts (session_cleanup_sweep (st\<lparr> now := t \<rparr>))"

section \<open>The processor object main.py holds\<close>

text \<open>
  \<^verbatim>\<open>def translate_audio(self, audio_data, source_language, target_language, session_id)\<close>:
  the parameters a call can name.
\<close>

definition translate_audio_params :: "string list" where
  "translate_audio_params =
     [''audio_data'', ''source_language'', ''target_language'', ''session_id'']"

text \<open>
  Binding the keyword arguments of a call to the parameters of a function: a keyword
  that names no parameter raises TypeError, and so does a parameter left without a value
  (none of these has a default). The bound arguments are returned.
\<close>

definition bind_keywords ::
  "string list \<Rightarrow> (string \<times> json) list \<Rightarrow> exn + (string \<times> json) list" where
  "bind_keywords params kwargs =
     (case filter (\<lambda>k. k \<notin> set params) (map fst kwargs) of
        k # ks \<Rightarrow> Inl (TypeError [Lit ''got an unexpected keyword argument '', Lit k])
      | [] \<Rightarrow>
          (case filter (\<lambda>p. map_of kwargs p = None) params of
             p # ps \<Rightarrow> Inl (TypeError [Lit ''missing a required argument: '', Lit p])
           | [] \<Rightarrow> Inr kwargs))"

text \<open>
  The global \<^verbatim>\<open>translation_processor\<close>, a \<^verbatim>\<open>SeamlessM4TProcessor\<close>: calling its method
  binds the keywords first, and only a call that binds runs \<open>translate_audio\<close>. The class
  defines no attribute \<^verbatim>\<open>backpressure_events\<close>. The statistics the method keeps in the
  processor do not reach the server and are dropped here.
\<close>

definition SeamlessM4TProcessor_object ::
  "library \<Rightarrow> SeamlessM4TProcessor \<Rightarrow> (nat \<Rightarrow> reply) \<Rightarrow> int \<Rightarrow> processor_object" where
  "SeamlessM4TProcessor_object lib self engine elapsed =
     \<lparr> translate_audio_method =
         (\<lambda>kwargs.
            case bind_keywords translate_audio_params kwargs of
              Inl e \<Rightarrow> ([], 0, Inl e)
            | Inr args \<Rightarrow>
                (let r = translate_audio lib self engine elapsed
                           (dict_get args ''audio_data'' JNull)
                           (dict_get args ''source_language'' JNull)
                           (dict_get args ''target_language'' JNull)
                           (dict_get args ''session_id'' JNull)
                 in (fst r, elapsed, snd (snd r)))),
       backpressure_events_attr = None \<rparr>"

section \<open>Observations\<close>

text \<open>The messages delivered on a WebSocket, in order.\<close>

fun delivered :: "nat \<Rightarrow> event list \<Rightarrow> outbound list" where
  "delivered ws [] = []"
| "delivered ws (Sent w m # evs) = (if w = ws then m # delivered ws evs else delivered ws evs)"
| "delivered ws (e # evs) = delivered ws evs"

definition message_type_of :: "outbound \<Rightarrow> string" where
  "message_type_of m = (case map_of m ''message_type'' of Some (PStr t) \<Rightarrow> t | _ \<Rightarrow> [])"

definition is_transcript :: "outbound \<Rightarrow> bool" where
  "is_transcript m =
     (message_type_of m = ''final_transcript'' \<or> message_type_of m = ''partial_transcript'')"

definition is_ack_of :: "json \<Rightarrow> outbound \<Rightarrow> bool" where
  "is_ack_of sequence_id m =
     (message_type_of m = ''ack'' \<and> map_of m ''ack_sequence_id'' = Some (PJson sequence_id))"

definition is_error_with :: "ErrorCode \<Rightarrow> outbound \<Rightarrow> bool" where
  "is_error_with code m =
     (message_type_of m = ''error'' \<and> map_of m ''error_code'' = Some (PStr (ErrorCode_value code)))"


fun is_call_event :: "event \<Rightarrow> bool" where
  "is_call_event (Call_translate_audio kwargs) = True"
| "is_call_event e = False"

text \<open>The last-acknowledged sequence number the registry holds for a session.\<close>

definition stored_ack :: "server \<Rightarrow> string \<Rightarrow> json option" where
  "stored_ack st session_id = map_option last_acknowledged_seq (map_of (session_metadata st) session_id)"

text \<open>
  A session is live when the manager holds a WebSocket for it whose sends go through,
  and broken when it holds one whose sends raise.
\<close>

definition live :: "server \<Rightarrow> string \<Rightarrow> bool" where
  "live st session_id =
     (case map_of (active_connections st) session_id of
        None \<Rightarrow> False
      | Some websocket \<Rightarrow> websocket \<notin> failing st)"

definition broken :: "server \<Rightarrow> string \<Rightarrow> bool" where
  "broken st session_id =
     (case map_of (active_connections st) session_id of
        None \<Rightarrow> False
      | Some websocket \<Rightarrow> websocket \<in> failing st)"

text \<open>What \<open>send_message\<close> adds to the wire.\<close>

definition send_events :: "server \<Rightarrow> string \<Rightarrow> outbound \<Rightarrow> event list" where
  "send_events st session_id message =
     (case map_of (active_connections st) session_id of
        None \<Rightarrow> []
      | Some websocket \<Rightarrow>
          if websocket \<in> failing st then [Send_failed websocket message]
          else [Sent websocket message])"

text \<open>The events a step added to the wire.\<close>

definition new_events :: "server \<Rightarrow> server \<Rightarrow> event list" where
  "new_events st st' = drop (length (wire st)) (wire st')"

text \<open>A server that has just started, with the clock at \<open>t\<close>.\<close>

definition initial_server :: "int \<Rightarrow> server" where
  "initial_server t =
     \<lparr> active_connections = [],
       session_metadata = [],
       active_sessions = [],
       connection_stats =
         \<lparr> total_connections = 0, cs_active_connections = 0, total_translations = 0,
           successful_translations = 0, failed_translations = 0, avg_processing_time = 0,
           cs_backpressure_events = 0 \<rparr>,
       now = t,
       failing = {},
       wire = [] \<rparr>"

section \<open>Concrete surroundings for evaluating the model\<close>

text \<open>
  A stand-in for the libraries, used only where the model is run on a concrete input:
  a session id counts as well formed when it has the 36 characters of the canonical
  form, base64 decoding of a string gives two bytes of silence for every four
  characters, and the filters return their input but raise ValueError on an input no
  longer than the padding (three times the number of coefficients), as
  \<^verbatim>\<open>filtfilt\<close> does.
\<close>

definition plain_library :: library where
  "plain_library =
     \<lparr> uuid_ok = (\<lambda>s. length s = 36),
       b64decode = (\<lambda>v. case v of
                            JStr s \<Rightarrow> Inr (replicate (2 * (length s div 4)) 0)
                          | _ \<Rightarrow> Inl (TypeError [Lit ''argument should be a bytes-like object or ASCII string''])),
       b64encode = (\<lambda>bs. replicate (4 * ((length bs + 2) div 3)) CHR ''A''),
       butter = (\<lambda>n ws t. Inr (replicate (Suc (n * length ws)) 1, replicate (Suc (n * length ws)) 1)),
       filtfilt = (\<lambda>b a x. if length x \<le> 3 * max (length a) (length b)
                            then Inl (ValueError [Lit ''The length of the input vector x must be greater than padlen''])
                            else Inr x) \<rparr>"

text \<open>A processor that has been initialised (\<^verbatim>\<open>initialize\<close> sets \<^verbatim>\<open>is_loaded\<close>).\<close>

definition loaded_processor :: SeamlessM4TProcessor where
  "loaded_processor = SeamlessM4TProcessor_init\<lparr> is_loaded := True \<rparr>"

text \<open>An engine that is down: every request fails in the transport.\<close>

definition engine_down :: "nat \<Rightarrow> reply" where
  "engine_down attempt = Transport_failure (LibraryError [Lit ''Cannot connect to host''])"


text \<open>A session id in canonical form, and well-formed audio-chunk units for it.\<close>

definition example_session :: string where
  "example_session = ''123e4567-e89b-12d3-a456-426614174000''"

definition example_chunk :: "int \<Rightarrow> (string \<times> json) list" where
  "example_chunk seq =
     [(''session_id'', JStr example_session),
      (''audio_chunk'', JStr ''AAAAAAAA''),
      (''chunk_index'', JInt 0),
      (''sequence_id'', JInt seq),
      (''language_pair'', JDict [(''source'', JStr ''en''), (''target'', JStr ''hi'')])]"

definition example_client :: "string \<times> string \<times> string" where
  "example_client = (''127.0.0.1'', ''test-client'', ''en-hi'')"

text \<open>
  The global \<^verbatim>\<open>translation_processor\<close> of a running server: an initialised
  \<^verbatim>\<open>SeamlessM4TProcessor\<close>, here with the engine down.
\<close>

definition example_translation_processor :: processor_object where
  "example_translation_processor =
     SeamlessM4TProcessor_object plain_library loaded_processor engine_down 0"


text \<open>
  The server at time 0, just after the example session has connected on WebSocket 1 and
  got its \<^verbatim>\<open>connected\<close> message; no unit has arrived yet.
\<close>

definition example_connected :: server where
  "example_connected =
     websocket_endpoint plain_library example_translation_processor (initial_server 0)
       1 example_session example_client []"

section \<open>Properties of models.py\<close>

text \<open>
  C10. The success-rate computation is total: it never raises ZeroDivisionError. With no
  translation counted it returns 0.0, otherwise the share of successful translations
  scaled to a percentage.
\<close>

theorem get_success_rate_total:
  "get_success_rate self =
     Inr (if total_translations self = 0 then 0
          else real_of_int (successful_translations self)
               / real_of_int (total_translations self) * 100)"
  by (simp add: get_success_rate_def py_truediv_def)

section \<open>Properties of the audio conditioner\<close>

lemma np_max_abs_nonempty: "xs \<noteq> [] \<Longrightarrow> np_max (map abs xs) = Inr (Max (abs ` set xs))"
  by (cases xs) (simp_all add: Max.set_eq_fold [symmetric])

lemma peak_safety_below:
  "list_all (\<lambda>x. \<bar>x\<bar> \<le> 0.95) xs \<Longrightarrow> apply_peak_safety_normalization xs = Inr xs"
proof (cases "xs = []")
  case True
  then show ?thesis by (simp add: apply_peak_safety_normalization_def)
next
  case False
  assume b: "list_all (\<lambda>x. \<bar>x\<bar> \<le> 0.95) xs"
  have "Max (abs ` set xs) \<le> 0.95"
    using False b by (subst Max_le_iff) (auto simp: list_all_iff)
  then show ?thesis
    using False by (simp add: apply_peak_safety_normalization_def np_max_abs_nonempty)
qed

lemma peak_safety_bounded:
  "\<exists>ys. apply_peak_safety_normalization xs = Inr ys \<and> list_all (\<lambda>y. \<bar>y\<bar> \<le> 0.95) ys"
proof (cases "xs = []")
  case True
  then show ?thesis by (simp add: apply_peak_safety_normalization_def)
next
  case False
  define p where "p = Max (abs ` set xs)"
  have pmax: "\<And>x. x \<in> set xs \<Longrightarrow> \<bar>x\<bar> \<le> p"
    unfolding p_def by simp
  show ?thesis
  proof (cases "p > 0.95")
    case True
    have "\<bar>x * (0.95 / p)\<bar> \<le> 0.95" if "x \<in> set xs" for x
    proof -
      have "\<bar>x\<bar> \<le> p" using pmax that by simp
      moreover have "0 < p" using True by simp
      ultimately have "\<bar>x\<bar> * (0.95 / p) \<le> p * (0.95 / p)"
        by (intro mult_right_mono) simp_all
      then show ?thesis using \<open>0 < p\<close> by (simp add: abs_mult)
    qed
    then show ?thesis
      using \<open>xs \<noteq> []\<close> True
      by (simp add: apply_peak_safety_normalization_def np_max_abs_nonempty
            p_def [symmetric] list_all_iff)
  next
    case False
    then have "\<And>x. x \<in> set xs \<Longrightarrow> \<bar>x\<bar> \<le> 0.95"
      using pmax by fastforce
    then show ?thesis
      using False \<open>xs \<noteq> []\<close>
      by (simp add: apply_peak_safety_normalization_def np_max_abs_nonempty
            p_def [symmetric] list_all_iff)
  qed
qed

text \<open>A buffer that peaks at 1.9 is scaled by one half: its peak becomes 0.95.\<close>

lemma peak_safety_scales_down:
  "apply_peak_safety_normalization [1.9, - 0.95, 0] = Inr [0.95, - 0.475, 0]"
  by (simp add: apply_peak_safety_normalization_def)

text \<open>
  The normalisation step on its own, with samples as exact reals: it returns a buffer
  (it never raises) in which no sample exceeds 0.95 in magnitude; a buffer whose samples
  are all within 0.95 already is returned unchanged; and a second application returns
  the result of the first.
\<close>

lemma peak_safety_normalization_safe:
  "\<exists>ys. apply_peak_safety_normalization xs = Inr ys
      \<and> list_all (\<lambda>y. \<bar>y\<bar> \<le> 0.95) ys
      \<and> (list_all (\<lambda>x. \<bar>x\<bar> \<le> 0.95) xs \<longrightarrow> ys = xs)
      \<and> apply_peak_safety_normalization ys = Inr ys"
proof -
  obtain ys where ys: "apply_peak_safety_normalization xs = Inr ys"
    and b: "list_all (\<lambda>y. \<bar>y\<bar> \<le> 0.95) ys"
    using peak_safety_bounded by blast
  have "apply_peak_safety_normalization ys = Inr ys"
    using b by (rule peak_safety_below)
  moreover have "list_all (\<lambda>x. \<bar>x\<bar> \<le> 0.95) xs \<longrightarrow> ys = xs"
    using ys peak_safety_below by fastforce
  ultimately show ?thesis using ys b by blast
qed

lemma peak_safety_normalization_safe_example:
  "list_all (\<lambda>x. \<bar>x\<bar> \<le> 0.95) [0.5, - 0.25 :: real]
   \<and> apply_peak_safety_normalization [0.5, - 0.25] = Inr [0.5, - 0.25]"
  using peak_safety_normalization_safe [of "[0.5, - 0.25]"] by auto

text \<open>The pass on 16-bit PCM, on a quiet buffer of one sample.\<close>

lemma frombuffer_1000: "frombuffer_int16 [0xE8, 0x03] = Inr [1000]"
  by (simp add: word_cat_eq)

lemma frombuffer_999: "frombuffer_int16 [0xE7, 0x03] = Inr [999]"
  by (simp add: word_cat_eq)

lemma tobytes_999: "tobytes [999] = [0xE7, 0x03]"
  by (simp add: tobytes_def drop_bit_eq_div)

lemma tobytes_998: "tobytes [998] = [0xE6, 0x03]"
  by (simp add: tobytes_def drop_bit_eq_div)

lemma requantise_1000: "float_to_int16 (int16_to_float 1000) = 999"
  by (simp add: float_to_int16_def int16_to_float_def trunc_def)

lemma requantise_999: "float_to_int16 (int16_to_float 999) = 998"
  by (simp add: float_to_int16_def int16_to_float_def trunc_def)

lemma quiet_1000: "apply_peak_safety_normalization [int16_to_float 1000] = Inr [int16_to_float 1000]"
  by (simp add: apply_peak_safety_normalization_def int16_to_float_def)

lemma quiet_999: "apply_peak_safety_normalization [int16_to_float 999] = Inr [int16_to_float 999]"
  by (simp add: apply_peak_safety_normalization_def int16_to_float_def)

text \<open>
  C9 (the code departs from the claim). The safety pass on engine output,
  \<^verbatim>\<open>_postprocess_audio\<close>, takes 16-bit PCM to floats by dividing by 32768 and back by
  multiplying with 32767 and dropping the fraction. A buffer holding the one sample 1000
  peaks far below 0.95, and the normalisation step leaves it alone, yet the pass returns
  the sample 999, and a second pass returns 998: the buffer is not returned unchanged
  and the pass is not idempotent.
\<close>

theorem safety_pass_requantises_quiet_buffer:
  "postprocess_audio [0xE8, 0x03] = [0xE7, 0x03]
   \<and> postprocess_audio (postprocess_audio [0xE8, 0x03]) = [0xE6, 0x03]"
proof -
  have a: "postprocess_audio_try [0xE8, 0x03] = Inr [0xE7, 0x03]"
    unfolding postprocess_audio_try_def frombuffer_1000
    by (simp add: quiet_1000 requantise_1000 tobytes_999)
  have b: "postprocess_audio_try [0xE7, 0x03] = Inr [0xE6, 0x03]"
    unfolding postprocess_audio_try_def frombuffer_999
    by (simp add: quiet_999 requantise_999 tobytes_998)
  have c: "postprocess_audio [0xE8, 0x03] = [0xE7, 0x03]"
    unfolding postprocess_audio_def a by simp
  have d: "postprocess_audio [0xE7, 0x03] = [0xE6, 0x03]"
    unfolding postprocess_audio_def b by simp
  show ?thesis
    unfolding c d by simp
qed

section \<open>Properties of the translation gateway\<close>

lemma upt_0_3: "upt 0 3 = [0, 1, 2]"
  by (simp add: upt_rec)

text \<open>
  The retry loop on its own does what the policy says: three requests that all fail are
  separated by sleeps of 1 and 2 seconds, and the third failure raises the error that
  tells the attempts are used up; no fourth request is made.
\<close>

lemma retry_loop_exhausted:
  assumes "post_once lib (engine 0) = Inl e0"
      and "post_once lib (engine 1) = Inl e1"
      and "post_once lib (engine 2) = Inl e2"
  shows "retry_loop lib engine 3 (upt 0 3) =
           ([Post 0, Sleep 1, Post 1, Sleep 2, Post 2],
            Inl (ProcessorError
                  ([Lit ''Translation failed after '', Num 3, Lit '' attempts: ''] @ str_exn e2)))"
  using assms by (simp add: upt_0_3)

lemma retry_loop_posts_bounded:
  "length (filter (\<lambda>ev. case ev of Post n \<Rightarrow> True | Sleep d \<Rightarrow> False)
            (fst (retry_loop lib engine m attempts))) \<le> length attempts"
  by (induction attempts) (auto split: sum.splits)

text \<open>
  C5 (the code departs from the claim). The loop is never reached: building the request
  payload raises NameError on every call, so \<^verbatim>\<open>_translate_with_seamless_m4t\<close> makes no
  request at all, sleeps never, and raises NameError instead of the error that tells the
  attempts are used up, whatever the engine would have answered.
\<close>

theorem translate_with_seamless_m4t_raises_NameError:
  "translate_with_seamless_m4t lib engine audio_data source_language target_language
     = ([], Inl (NameError [Lit ''name false is not defined'']))"
  by (simp add: translate_with_seamless_m4t_def request_payload_def)

text \<open>
  C6 as amended. A request whose source or target language code is not a key of the
  language mapping fails before anything is sent to the engine: the list of engine
  events of the call is empty. On an initialised processor the exception is the
  ProcessorError that names the unsupported pair; on a processor that is not
  initialised it is the ProcessorError that says so, since that check comes first. The
  code has one exception class for the gateway, \<^verbatim>\<open>ProcessorError\<close>, and no class of its own
  for an unsupported language.
\<close>

theorem unsupported_language_fails_before_any_request:
  assumes "map_of (language_mapping self) src = None \<or> map_of (language_mapping self) tgt = None"
  shows "translate_audio lib self engine elapsed audio_data (JStr src) (JStr tgt) session_id
           = ([], self,
              Inl (ProcessorError
                    (if is_loaded self
                     then [Lit ''Unsupported language pair: '', Str (JStr src),
                           Lit '' -> '', Str (JStr tgt)]
                     else [Lit ''SeamlessM4T processor not initialized''])))"
  using assms
  by (auto simp add: translate_audio_def translate_audio_try_def is_language_supported_def Let_def)

theorem unsupported_language_fails_before_any_request_witness:
  "map_of (language_mapping loaded_processor) ''xx'' = None
   \<and> is_loaded loaded_processor
   \<and> translate_audio plain_library loaded_processor engine_down 0
        (JStr ''AAAAAAAA'') (JStr ''xx'') (JStr ''hi'') (JStr example_session)
      = ([], loaded_processor,
         Inl (ProcessorError [Lit ''Unsupported language pair: '', Str (JStr ''xx''),
                              Lit '' -> '', Str (JStr ''hi'')]))"
proof -
  have l: "is_loaded loaded_processor"
    by (simp add: loaded_processor_def SeamlessM4TProcessor_init_def)
  have u: "map_of (language_mapping loaded_processor) ''xx'' = None"
    by (simp add: loaded_processor_def SeamlessM4TProcessor_init_def)
  have h: "map_of (language_mapping loaded_processor) ''xx'' = None
             \<or> map_of (language_mapping loaded_processor) ''hi'' = None"
    using u by simp
  show ?thesis
    using l u unsupported_language_fails_before_any_request [OF h]
    by simp
qed

text \<open>
  C6, the claim as stated, fails: on a processor that has not been initialised a request
  with the unsupported source code \<^verbatim>\<open>xx\<close> does not fail with an error about the
  language.
\<close>

theorem unsupported_language_on_unloaded_processor:
  "map_of (language_mapping SeamlessM4TProcessor_init) ''xx'' = None
   \<and> translate_audio plain_library SeamlessM4TProcessor_init engine_down 0
        (JStr ''AAAAAAAA'') (JStr ''xx'') (JStr ''hi'') (JStr example_session)
      = ([], SeamlessM4TProcessor_init,
         Inl (ProcessorError [Lit ''SeamlessM4T processor not initialized'']))"
  by (simp add: translate_audio_def translate_audio_try_def SeamlessM4TProcessor_init_def Let_def)

section \<open>Properties of the WebSocket manager and the protocol engine\<close>

lemma disconnect_proj [simp]:
  "wire (disconnect st sid) = wire st"
  "now (disconnect st sid) = now st"
  "failing (disconnect st sid) = failing st"
  "active_sessions (disconnect st sid) = active_sessions st"
  by (simp_all add: disconnect_def Let_def)

lemma disconnect_connections [simp]:
  "map_of (active_connections (disconnect st sid)) = (map_of (active_connections st))(sid := None)"
  by (auto simp add: disconnect_def Let_def AList.delete_conv')

lemma disconnect_metadata [simp]:
  "map_of (session_metadata (disconnect st sid)) = (map_of (session_metadata st))(sid := None)"
  by (auto simp add: disconnect_def Let_def AList.delete_conv')

lemma send_message_proj [simp]:
  "now (send_message st sid m) = now st"
  "failing (send_message st sid m) = failing st"
  "active_sessions (send_message st sid m) = active_sessions st"
  by (simp_all add: send_message_def split: option.splits)

lemma send_message_wire [simp]:
  "wire (send_message st sid m) = wire st @ send_events st sid m"
  by (simp add: send_message_def send_events_def split: option.splits)

lemma send_message_connections [simp]:
  "map_of (active_connections (send_message st sid m)) =
     (if broken st sid then (map_of (active_connections st))(sid := None)
      else map_of (active_connections st))"
  by (simp add: send_message_def broken_def split: option.splits)

lemma send_message_stats [simp]:
  "failed_translations (connection_stats (send_message st sid m)) = failed_translations (connection_stats st)"
  "total_translations (connection_stats (send_message st sid m)) = total_translations (connection_stats st)"
  "successful_translations (connection_stats (send_message st sid m)) = successful_translations (connection_stats st)"
  by (simp_all add: send_message_def disconnect_def Let_def split: option.splits)

lemma stored_ack_send_message [simp]:
  "stored_ack (send_message st sid m) sid' =
     (if sid' = sid \<and> broken st sid then None else stored_ack st sid')"
  by (auto simp add: send_message_def stored_ack_def broken_def AList.update_conv' split: option.splits)

lemma live_cong:
  "map_of (active_connections st') = map_of (active_connections st) \<Longrightarrow> failing st' = failing st
     \<Longrightarrow> live st' = live st"
  by (auto simp add: live_def fun_eq_iff split: option.splits)

lemma broken_cong:
  "map_of (active_connections st') = map_of (active_connections st) \<Longrightarrow> failing st' = failing st
     \<Longrightarrow> broken st' = broken st"
  by (auto simp add: broken_def fun_eq_iff split: option.splits)

lemma send_events_cong:
  "map_of (active_connections st') = map_of (active_connections st) \<Longrightarrow> failing st' = failing st
     \<Longrightarrow> send_events st' = send_events st"
  by (auto simp add: send_events_def fun_eq_iff split: option.splits)

lemma live_not_broken: "live st sid \<Longrightarrow> \<not> broken st sid"
  by (simp add: live_def broken_def split: option.splits)

lemma send_events_live:
  "map_of (active_connections st) sid = Some ws \<Longrightarrow> ws \<notin> failing st
     \<Longrightarrow> send_events st sid m = [Sent ws m]"
  by (simp add: send_events_def)

lemma send_acknowledgment_proj [simp]:
  "now (send_acknowledgment st sid s) = now st"
  "failing (send_acknowledgment st sid s) = failing st"
  "active_sessions (send_acknowledgment st sid s) = active_sessions st"
  by (simp_all add: send_acknowledgment_def Let_def split: option.splits)

lemma send_acknowledgment_wire [simp]:
  "wire (send_acknowledgment st sid s) = wire st @ send_events st sid (ack_message sid s (now st))"
  by (cases "map_of (session_metadata st) sid")
     (auto simp add: send_acknowledgment_def send_events_def split: option.splits)

lemma send_acknowledgment_connections [simp]:
  "map_of (active_connections (send_acknowledgment st sid s)) =
     (if broken st sid then (map_of (active_connections st))(sid := None)
      else map_of (active_connections st))"
  by (cases "map_of (session_metadata st) sid")
     (simp_all add: send_acknowledgment_def broken_def split: option.splits)

lemma stored_ack_send_acknowledgment [simp]:
  "stored_ack (send_acknowledgment st sid s) sid' =
     (if sid' = sid
      then (if broken st sid \<or> map_of (session_metadata st) sid = None then None else Some s)
      else stored_ack st sid')"
proof (cases "map_of (session_metadata st) sid")
  case None
  then show ?thesis
    by (simp add: send_acknowledgment_def) (simp add: stored_ack_def)
next
  case (Some md)
  define st1 where
    "st1 = st\<lparr> session_metadata :=
              AList.update sid (md\<lparr> last_acknowledged_seq := s \<rparr>) (session_metadata st) \<rparr>"
  have b: "broken st1 sid = broken st sid"
    by (simp add: st1_def broken_def split: option.splits)
  have a: "stored_ack st1 sid' = (if sid' = sid then Some s else stored_ack st sid')"
    by (simp add: st1_def stored_ack_def AList.update_conv')
  have "send_acknowledgment st sid s = send_message st1 sid (ack_message sid s (now st))"
    by (simp add: send_acknowledgment_def Some st1_def)
  then show ?thesis
    using a b Some by auto
qed

lemma send_acknowledgment_stats [simp]:
  "failed_translations (connection_stats (send_acknowledgment st sid s)) = failed_translations (connection_stats st)"
  by (simp add: send_acknowledgment_def Let_def split: option.splits)

lemma send_error_message_proj [simp]:
  "now (send_error_message st sid err) = now st"
  "failing (send_error_message st sid err) = failing st"
  "active_sessions (send_error_message st sid err) = active_sessions st"
  "wire (send_error_message st sid err) = wire st @ send_events st sid (error_outbound sid err (now st))"
  "map_of (active_connections (send_error_message st sid err)) =
     (if broken st sid then (map_of (active_connections st))(sid := None)
      else map_of (active_connections st))"
  "stored_ack (send_error_message st sid err) sid' =
     (if sid' = sid \<and> broken st sid then None else stored_ack st sid')"
  "failed_translations (connection_stats (send_error_message st sid err)) = failed_translations (connection_stats st)"
  by (simp_all add: send_error_message_def)

lemma count_failure_proj [simp]:
  "now (count_failure st) = now st"
  "failing (count_failure st) = failing st"
  "active_sessions (count_failure st) = active_sessions st"
  "wire (count_failure st) = wire st"
  "active_connections (count_failure st) = active_connections st"
  "session_metadata (count_failure st) = session_metadata st"
  "failed_translations (connection_stats (count_failure st)) = failed_translations (connection_stats st) + 1"
  by (simp_all add: count_failure_def)

lemma count_failure_obs [simp]:
  "stored_ack (count_failure st) = stored_ack st"
  "live (count_failure st) = live st"
  "broken (count_failure st) = broken st"
  "send_events (count_failure st) = send_events st"
  by (simp_all add: fun_eq_iff stored_ack_def live_def broken_def send_events_def
        split: option.splits)

lemma live_update [simp]:
  "live (wire_update f st) = live st"
  "live (now_update g st) = live st"
  "live (session_metadata_update h st) = live st"
  "live (connection_stats_update k st) = live st"
  "live (active_sessions_update l st) = live st"
  by (simp_all add: fun_eq_iff live_def split: option.splits)

lemma broken_update [simp]:
  "broken (wire_update f st) = broken st"
  "broken (now_update g st) = broken st"
  "broken (session_metadata_update h st) = broken st"
  "broken (connection_stats_update k st) = broken st"
  "broken (active_sessions_update l st) = broken st"
  by (simp_all add: fun_eq_iff broken_def split: option.splits)

lemma send_events_update [simp]:
  "send_events (wire_update f st) = send_events st"
  "send_events (now_update g st) = send_events st"
  "send_events (session_metadata_update h st) = send_events st"
  "send_events (connection_stats_update k st) = send_events st"
  "send_events (active_sessions_update l st) = send_events st"
  by (simp_all add: fun_eq_iff send_events_def split: option.splits)

lemma stored_ack_update [simp]:
  "stored_ack (wire_update f st) = stored_ack st"
  "stored_ack (now_update g st) = stored_ack st"
  "stored_ack (connection_stats_update k st) = stored_ack st"
  "stored_ack (active_sessions_update l st) = stored_ack st"
  by (simp_all add: fun_eq_iff stored_ack_def)

lemma live_send_message [simp]:
  "live (send_message st sid m) sid' = (live st sid' \<and> \<not> (sid' = sid \<and> broken st sid))"
  by (auto simp add: live_def broken_def split: option.splits)

lemma broken_send_message [simp]:
  "broken (send_message st sid m) sid' = (broken st sid' \<and> sid' \<noteq> sid)"
  by (auto simp add: live_def broken_def split: option.splits)

lemma live_send_error [simp]:
  "live (send_error_message st sid err) sid' = (live st sid' \<and> \<not> (sid' = sid \<and> broken st sid))"
  "broken (send_error_message st sid err) sid' = (broken st sid' \<and> sid' \<noteq> sid)"
  by (simp_all add: send_error_message_def)

lemma live_send_acknowledgment [simp]:
  "live (send_acknowledgment st sid s) sid' = (live st sid' \<and> \<not> (sid' = sid \<and> broken st sid))"
  "broken (send_acknowledgment st sid s) sid' = (broken st sid' \<and> sid' \<noteq> sid)"
  by (auto simp add: live_def broken_def split: option.splits)

lemma stored_ack_bump [simp]:
  "map_of (session_metadata st) sid = Some md \<Longrightarrow>
   stored_ack (st\<lparr> session_metadata :=
                   AList.update sid (md\<lparr> chunks_processed := c \<rparr>) (session_metadata st) \<rparr>)
     = stored_ack st"
  by (auto simp add: fun_eq_iff stored_ack_def AList.update_conv')



lemma tar_failing [simp]:
  "failing (fst (translate_and_reply P st sid m)) = failing st"
  by (simp add: translate_and_reply_def Let_def split: sum.splits option.splits)

lemma tar_live [simp]:
  "live st sid \<Longrightarrow> live (fst (translate_and_reply P st sid m)) sid' = live st sid'"
  by (auto simp add: translate_and_reply_def Let_def live_not_broken split: sum.splits option.splits)

lemma tar_not_live [simp]:
  "\<not> live st sid \<Longrightarrow> \<not> live (fst (translate_and_reply P st sid m)) sid"
  by (auto simp add: translate_and_reply_def Let_def split: sum.splits option.splits)

lemma tar_stored_ack_other:
  "sid' \<noteq> sid \<Longrightarrow> stored_ack (fst (translate_and_reply P st sid m)) sid' = stored_ack st sid'"
  by (auto simp add: translate_and_reply_def Let_def split: sum.splits option.splits)





lemma tar_failed [simp]:
  "failed_translations (connection_stats (fst (translate_and_reply P st sid m)))
     = failed_translations (connection_stats st)"
  by (simp add: translate_and_reply_def Let_def count_success_def split: sum.splits option.splits)

lemma tar_connections_live:
  "live st sid \<Longrightarrow> map_of (active_connections (fst (translate_and_reply P st sid m)))
     = map_of (active_connections st)"
  by (auto simp add: translate_and_reply_def Let_def live_not_broken split: sum.splits option.splits)

lemma try_failing [simp]:
  "failing (fst (process_audio_chunk_try P st sid m)) = failing st"
  by (simp add: process_audio_chunk_try_def Let_def)

lemma try_live [simp]:
  "live st sid \<Longrightarrow> live (fst (process_audio_chunk_try P st sid m)) sid' = live st sid'"
  by (simp add: process_audio_chunk_try_def Let_def live_not_broken)


lemma try_failed [simp]:
  "failed_translations (connection_stats (fst (process_audio_chunk_try P st sid m)))
     = failed_translations (connection_stats st)"
  by (simp add: process_audio_chunk_try_def Let_def)

lemma new_events_append: "new_events st (st'\<lparr> wire := wire st @ evs \<rparr>) = evs"
  by (simp add: new_events_def)

lemma new_events_trans:
  "wire b = wire a @ x \<Longrightarrow> wire c = wire b @ y \<Longrightarrow> new_events a c = x @ y"
  by (simp add: new_events_def)

lemma new_events_eq: "wire b = wire a @ x \<Longrightarrow> new_events a b = x"
  by (simp add: new_events_def)


lemma handler_wire:
  "wire (handle_chunk_failure r sid) = wire (fst r) @
     (case snd r of None \<Rightarrow> []
      | Some e \<Rightarrow> send_events (fst r) sid
          (error_outbound sid
             (new_ServerError (if isinstance_ProcessorError e then TRANSLATION_ERROR else UNEXPECTED_ERROR)
                (str_exn e) sid) (now (fst r))))"
  by (simp add: handle_chunk_failure_def split: option.splits)

lemma handler_failing [simp]: "failing (handle_chunk_failure r sid) = failing (fst r)"
  by (simp add: handle_chunk_failure_def split: option.splits)

lemma handler_live [simp]:
  "live (fst r) sid \<Longrightarrow> live (handle_chunk_failure r sid) sid' = live (fst r) sid'"
  by (auto simp add: handle_chunk_failure_def live_not_broken split: option.splits)



lemma ack_not_transcript [simp]: "\<not> is_transcript (ack_message sid s t)"
  by (simp add: is_transcript_def message_type_of_def ack_message_def)

lemma ack_is_ack [simp]: "is_ack_of s (ack_message sid s t)"
  by (simp add: is_ack_of_def message_type_of_def ack_message_def)



lemma touch_session_proj [simp]:
  "wire (touch_session st sid) = wire st"
  "now (touch_session st sid) = now st"
  "failing (touch_session st sid) = failing st"
  "active_connections (touch_session st sid) = active_connections st"
  "session_metadata (touch_session st sid) = session_metadata st"
  "connection_stats (touch_session st sid) = connection_stats st"
  by (simp_all add: touch_session_def split: option.splits)

lemma touch_session_obs [simp]:
  "live (touch_session st sid) = live st"
  "broken (touch_session st sid) = broken st"
  "stored_ack (touch_session st sid) = stored_ack st"
  "send_events (touch_session st sid) = send_events st"
  by (simp_all add: touch_session_def split: option.splits)

lemma valid_truthy:
  "validate_inbound_message lib message = Inr True \<Longrightarrow> truthy (dict_get message ''audio_chunk'' JNull)"
  by (auto simp add: validate_inbound_message_def split: if_splits sum.splits json.splits)

lemma live_iff: "live st sid \<longleftrightarrow> (\<exists>ws. map_of (active_connections st) sid = Some ws \<and> ws \<notin> failing st)"
  by (auto simp add: live_def split: option.splits)







lemma connect_proj [simp]:
  "wire (connect st ws sid info) = wire st @ [Accepted ws]"
  "now (connect st ws sid info) = now st"
  "failing (connect st ws sid info) = failing st"
  "active_sessions (connect st ws sid info) = active_sessions st"
  "map_of (active_connections (connect st ws sid info)) = (map_of (active_connections st))(sid \<mapsto> ws)"
  by (simp_all add: connect_def Let_def AList.update_conv')

lemma connect_metadata [simp]:
  "map_of (session_metadata (connect st ws sid info)) sid \<noteq> None"
  "stored_ack (connect st ws sid info) sid = Some (JInt 0)"
  by (simp_all add: connect_def Let_def AList.update_conv' stored_ack_def)

lemma endpoint_open:
  assumes "uuid_ok lib sid" and "ws \<notin> failing st"
  shows "wire (websocket_endpoint lib P st ws sid info []) =
           wire st @ [Accepted ws, Sent ws (connected_message sid (now st))]"
    and "map_of (active_connections (websocket_endpoint lib P st ws sid info [])) sid = Some ws"
    and "failing (websocket_endpoint lib P st ws sid info []) = failing st"
    and "now (websocket_endpoint lib P st ws sid info []) = now st"
    and "stored_ack (websocket_endpoint lib P st ws sid info []) sid = Some (JInt 0)"
  using assms
  by (simp_all add: websocket_endpoint_def Let_def send_events_def broken_def)

lemma example_uuid_ok [simp]: "uuid_ok plain_library example_session"
  by (simp add: plain_library_def example_session_def)

lemma initial_failing [simp]: "failing (initial_server t) = {}" "wire (initial_server t) = []"
  "now (initial_server t) = t"
  by (simp_all add: initial_server_def)

lemma example_connected_facts:
  "wire example_connected = [Accepted 1, Sent 1 (connected_message example_session 0)]"
  "map_of (active_connections example_connected) example_session = Some 1"
  "failing example_connected = {}"
  "now example_connected = 0"
  "stored_ack example_connected example_session = Some (JInt 0)"
  unfolding example_connected_def
  by (simp_all add: endpoint_open)

lemma delivered_append [simp]: "delivered ws (xs @ ys) = delivered ws xs @ delivered ws ys"
  by (induction ws xs rule: delivered.induct) simp_all

lemma tar_raise:
  assumes "attr_get (dict_get m ''language_pair'' (JDict [])) ''source'' (JStr ''en'') = Inr src"
      and "attr_get (dict_get m ''language_pair'' (JDict [])) ''target'' (JStr ''hi'') = Inr tgt"
      and "translate_audio_method P
             (translate_audio_kwargs (dict_get m ''audio_chunk'' JNull) src tgt sid
                (dict_get m ''sequence_id'' JNull)) = (evs, dt, Inl e)"
  shows "snd (translate_and_reply P st sid m) = Some e"
    and "wire (fst (translate_and_reply P st sid m)) =
           wire st @ Call_translate_audio
             (translate_audio_kwargs (dict_get m ''audio_chunk'' JNull) src tgt sid
                (dict_get m ''sequence_id'' JNull)) # map Engine evs"
    and "now (fst (translate_and_reply P st sid m)) = now st + dt"
  using assms
  by (simp_all add: translate_and_reply_def Let_def split: option.splits)

lemma real_processor_rejects_sequence_id:
  "translate_audio_method (SeamlessM4TProcessor_object lib self engine elapsed)
     (translate_audio_kwargs a s t sid q)
   = ([], 0, Inl (TypeError [Lit ''got an unexpected keyword argument '', Lit ''sequence_id'']))"
  by (simp add: SeamlessM4TProcessor_object_def translate_audio_kwargs_def bind_keywords_def
        translate_audio_params_def)

lemma pwm_step_raise:
  assumes v: "validate_inbound_message lib m = Inr True"
      and ty: "dict_get m ''message_type'' (JStr ''audio_chunk'') = JStr ''audio_chunk''"
      and sq: "dict_get m ''sequence_id'' JNull = s" and sn: "s \<noteq> JNull"
      and c: "map_of (active_connections st) sid = Some ws" and f: "ws \<notin> failing st"
      and a1: "attr_get (dict_get m ''language_pair'' (JDict [])) ''source'' (JStr ''en'') = Inr src"
      and a2: "attr_get (dict_get m ''language_pair'' (JDict [])) ''target'' (JStr ''hi'') = Inr tgt"
      and call: "translate_audio_method P
             (translate_audio_kwargs (dict_get m ''audio_chunk'' JNull) src tgt sid s) = (evs, dt, Inl e)"
  shows "wire (process_websocket_message lib P st sid (Some m)) =
           wire st @ [Sent ws (ack_message sid s (now st)),
                      Call_translate_audio
                        (translate_audio_kwargs (dict_get m ''audio_chunk'' JNull) src tgt sid s)]
             @ map Engine evs
             @ [Sent ws (error_outbound sid
                  (new_ServerError
                     (if isinstance_ProcessorError e then TRANSLATION_ERROR else UNEXPECTED_ERROR)
                     (str_exn e) sid) (now st + dt))]"
    and "map_of (active_connections (process_websocket_message lib P st sid (Some m))) sid = Some ws"
    and "failing (process_websocket_message lib P st sid (Some m)) = failing st"
    and "now (process_websocket_message lib P st sid (Some m)) = now st + dt"
proof -
  have t: "truthy (dict_get m ''audio_chunk'' JNull)" using v by (rule valid_truthy)
  have l: "live st sid" using c f by (simp add: live_iff)
  define st1 where "st1 = send_acknowledgment st sid s"
  define r where "r = translate_and_reply P st1 sid m"
  have l1: "live st1 sid" using l by (simp add: st1_def live_not_broken)
  have c1: "map_of (active_connections st1) sid = Some ws"
    using l c by (simp add: st1_def live_not_broken)
  have w1: "wire st1 = wire st @ [Sent ws (ack_message sid s (now st))]"
    using c f by (simp add: st1_def send_events_def)
  have call': "translate_audio_method P
             (translate_audio_kwargs (dict_get m ''audio_chunk'' JNull) src tgt sid
                (dict_get m ''sequence_id'' JNull)) = (evs, dt, Inl e)"
    using call sq by simp
  note tr = tar_raise [OF a1 a2 call', of st1]
  have lr: "live (fst r) sid" using l1 by (simp add: r_def)
  have cr: "map_of (active_connections (fst r)) sid = Some ws"
    using l1 c1 by (simp add: r_def tar_connections_live)
  have fr: "failing (fst r) = failing st" by (simp add: r_def st1_def)
  have eq: "process_websocket_message lib P st sid (Some m) = handle_chunk_failure r sid"
    using v ty t sq sn
    by (simp add: process_websocket_message_def process_audio_chunk_def
          process_audio_chunk_try_def Let_def r_def st1_def)
  have sr: "snd r = Some e" using tr(1) by (simp add: r_def)
  have wr: "wire (fst r) = wire st1 @ Call_translate_audio
             (translate_audio_kwargs (dict_get m ''audio_chunk'' JNull) src tgt sid s) # map Engine evs"
    using tr(2) sq by (simp add: r_def)
  have nr: "now (fst r) = now st + dt" using tr(3) by (simp add: r_def st1_def)
  have se: "send_events (fst r) sid x = [Sent ws x]" for x
    using cr fr f by (simp add: send_events_def)
  show "wire (process_websocket_message lib P st sid (Some m)) =
           wire st @ [Sent ws (ack_message sid s (now st)),
                      Call_translate_audio
                        (translate_audio_kwargs (dict_get m ''audio_chunk'' JNull) src tgt sid s)]
             @ map Engine evs
             @ [Sent ws (error_outbound sid
                  (new_ServerError
                     (if isinstance_ProcessorError e then TRANSLATION_ERROR else UNEXPECTED_ERROR)
                     (str_exn e) sid) (now st + dt))]"
    unfolding eq handler_wire sr by (simp add: se wr w1 nr)
  show "map_of (active_connections (process_websocket_message lib P st sid (Some m))) sid = Some ws"
    unfolding eq using cr lr sr
    by (simp add: handle_chunk_failure_def live_not_broken)
  show "failing (process_websocket_message lib P st sid (Some m)) = failing st"
    unfolding eq using fr by simp
  show "now (process_websocket_message lib P st sid (Some m)) = now st + dt"
    unfolding eq using nr sr by (simp add: handle_chunk_failure_def)
qed

lemma endpoint_unfold:
  "uuid_ok lib sid \<Longrightarrow>
   websocket_endpoint lib P st ws sid info (u # us) =
     (if snd (message_loop lib P sid (u # us) (websocket_endpoint lib P st ws sid info []))
      then endpoint_cleanup (fst (message_loop lib P sid (u # us) (websocket_endpoint lib P st ws sid info []))) sid
      else fst (message_loop lib P sid (u # us) (websocket_endpoint lib P st ws sid info [])))"
  by (simp add: websocket_endpoint_def Let_def)


lemma example_chunk_facts:
  "validate_inbound_message plain_library (example_chunk n) = Inr True"
  "dict_get (example_chunk n) ''message_type'' (JStr ''audio_chunk'') = JStr ''audio_chunk''"
  "dict_get (example_chunk n) ''sequence_id'' JNull = JInt n"
  "dict_get (example_chunk n) ''audio_chunk'' JNull = JStr ''AAAAAAAA''"
  "attr_get (dict_get (example_chunk n) ''language_pair'' (JDict [])) ''source'' (JStr ''en'') = Inr (JStr ''en'')"
  "attr_get (dict_get (example_chunk n) ''language_pair'' (JDict [])) ''target'' (JStr ''hi'') = Inr (JStr ''hi'')"
  by (simp_all add: example_chunk_def validate_inbound_message_def dict_get_def plain_library_def
        example_session_def)

text \<open>
  C1 (the code departs from the claim). A fresh session with a well-formed id sends one
  valid chunk with sequence_id 1, a non-empty payload and the pair en, hi. The client
  gets \<^verbatim>\<open>connected\<close>, then the ack for 1, and then an \<^verbatim>\<open>error\<close> message with code
  UNEXPECTED_ERROR where the claim has a transcript: \<^verbatim>\<open>process_audio_chunk\<close> passes
  \<^verbatim>\<open>sequence_id\<close> to \<^verbatim>\<open>translate_audio\<close>, which has no such parameter, so the call raises
  TypeError before the processor runs.
\<close>

theorem end_to_end_chunk_gets_error_not_transcript:
  "delivered 1 (wire (websocket_endpoint plain_library example_translation_processor
       (initial_server 0) 1 example_session example_client [Text (Some (example_chunk 1))]))
   = [connected_message example_session 0,
      ack_message example_session (JInt 1) 0,
      error_outbound example_session
        (new_ServerError UNEXPECTED_ERROR
           [Lit ''got an unexpected keyword argument '', Lit ''sequence_id''] example_session) 0]"
proof -
  have call: "translate_audio_method example_translation_processor
             (translate_audio_kwargs (dict_get (example_chunk 1) ''audio_chunk'' JNull)
                (JStr ''en'') (JStr ''hi'') example_session (JInt 1))
      = ([], 0, Inl (TypeError [Lit ''got an unexpected keyword argument '', Lit ''sequence_id'']))"
    unfolding example_translation_processor_def by (rule real_processor_rejects_sequence_id)
  define st0 where "st0 = touch_session example_connected example_session"
  have c: "map_of (active_connections st0) example_session = Some 1"
    and f: "1 \<notin> failing st0"
    by (simp_all add: st0_def example_connected_facts)
  note step = pwm_step_raise [OF example_chunk_facts(1) example_chunk_facts(2) example_chunk_facts(3)
      _ c f example_chunk_facts(5) example_chunk_facts(6) call]
  have "websocket_endpoint plain_library example_translation_processor
       (initial_server 0) 1 example_session example_client [Text (Some (example_chunk 1))]
      = process_websocket_message plain_library example_translation_processor st0 example_session
          (Some (example_chunk 1))"
    by (simp add: endpoint_unfold example_connected_def st0_def)
  then show ?thesis
    using step(1) by (simp add: st0_def example_connected_facts)
qed

section \<open>Failures inside the audio conditioner\<close>

text \<open>
  C8, the claim as stated, fails: the conditioner does raise. A buffer of one byte is no
  whole number of 16-bit samples; decoding it fails, and \<^verbatim>\<open>_preprocess_audio\<close> raises
  ProcessorError instead of returning a buffer.
\<close>

theorem preprocess_audio_raises_on_odd_buffer:
  "preprocess_audio plain_library loaded_processor [0]
     = Inl (ProcessorError [Lit ''Audio preprocessing failed: '',
                            Lit ''buffer size must be a multiple of element size''])"
  by (simp add: preprocess_audio_def preprocess_audio_try_def preprocessing_failed_def)

text \<open>
  C8 as amended. The conditioner returns a buffer or raises
  \<^verbatim>\<open>ProcessorError("Audio preprocessing failed: ...")\<close>, nothing else; and whenever a
  stage fails inside it (decoding the bytes, the noise suppression filter, the band-pass
  filter, the normalisation) the conditioner raises that ProcessorError, with the
  stage's own message, and returns no buffer.
\<close>

theorem preprocess_audio_failure_is_raised:
  "((\<exists>out. preprocess_audio lib self b = Inr out)
      \<or> (\<exists>e. preprocess_audio lib self b = Inl (preprocessing_failed e)))
   \<and> (\<forall>e. frombuffer_int16 b = Inl e
          \<longrightarrow> preprocess_audio lib self b = Inl (preprocessing_failed e))
   \<and> (\<forall>samples e.
          frombuffer_int16 b = Inr samples \<and> enable_noise_suppression self
          \<and> apply_noise_suppression lib self (map int16_to_float samples) = Inl e
          \<longrightarrow> preprocess_audio lib self b = Inl (preprocessing_failed e))
   \<and> (\<forall>samples suppressed e.
          frombuffer_int16 b = Inr samples
          \<and> (if enable_noise_suppression self
              then apply_noise_suppression lib self (map int16_to_float samples)
              else Inr (map int16_to_float samples)) = Inr suppressed
          \<and> enable_bandpass_filter self
          \<and> apply_bandpass_filter lib self
                (if enable_agc self then apply_agc self suppressed else suppressed) = Inl e
          \<longrightarrow> preprocess_audio lib self b = Inl (preprocessing_failed e))
   \<and> (\<forall>samples suppressed filtered e.
          frombuffer_int16 b = Inr samples
          \<and> (if enable_noise_suppression self
              then apply_noise_suppression lib self (map int16_to_float samples)
              else Inr (map int16_to_float samples)) = Inr suppressed
          \<and> (if enable_bandpass_filter self
              then apply_bandpass_filter lib self
                     (if enable_agc self then apply_agc self suppressed else suppressed)
              else Inr (if enable_agc self then apply_agc self suppressed else suppressed))
               = Inr filtered
          \<and> normalize_audio filtered = Inl e
          \<longrightarrow> preprocess_audio lib self b = Inl (preprocessing_failed e))"
proof -
  have shape: "(\<exists>out. preprocess_audio lib self b = Inr out)
      \<or> (\<exists>e. preprocess_audio lib self b = Inl (preprocessing_failed e))"
    by (cases "preprocess_audio_try lib self b") (auto simp add: preprocess_audio_def)
  have decode: "preprocess_audio lib self b = Inl (preprocessing_failed e)"
    if "frombuffer_int16 b = Inl e" for e
    using that by (simp add: preprocess_audio_def preprocess_audio_try_def)
  have suppress: "preprocess_audio lib self b = Inl (preprocessing_failed e)"
    if "frombuffer_int16 b = Inr samples" "enable_noise_suppression self"
       "apply_noise_suppression lib self (map int16_to_float samples) = Inl e" for samples e
    using that by (simp add: preprocess_audio_def preprocess_audio_try_def)
  have bandpass: "preprocess_audio lib self b = Inl (preprocessing_failed e)"
    if "frombuffer_int16 b = Inr samples"
       "(if enable_noise_suppression self
              then apply_noise_suppression lib self (map int16_to_float samples)
              else Inr (map int16_to_float samples)) = Inr suppressed"
       "enable_bandpass_filter self"
       "apply_bandpass_filter lib self
                (if enable_agc self then apply_agc self suppressed else suppressed) = Inl e"
    for samples suppressed e
    using that by (simp add: preprocess_audio_def preprocess_audio_try_def Let_def)
  have normalize: "preprocess_audio lib self b = Inl (preprocessing_failed e)"
    if "frombuffer_int16 b = Inr samples"
       "(if enable_noise_suppression self
              then apply_noise_suppression lib self (map int16_to_float samples)
              else Inr (map int16_to_float samples)) = Inr suppressed"
       "(if enable_bandpass_filter self
              then apply_bandpass_filter lib self
                     (if enable_agc self then apply_agc self suppressed else suppressed)
              else Inr (if enable_agc self then apply_agc self suppressed else suppressed))
               = Inr filtered"
       "normalize_audio filtered = Inl e"
    for samples suppressed filtered e
    using that by (simp add: preprocess_audio_def preprocess_audio_try_def Let_def)
  show ?thesis
    using shape decode suppress bandpass normalize by blast
qed

lemma noise_suppression_short_input:
  "apply_noise_suppression plain_library loaded_processor (map int16_to_float [0])
     = Inl (ValueError [Lit ''The length of the input vector x must be greater than padlen''])"
  by (simp add: apply_noise_suppression_def plain_library_def loaded_processor_def
        SeamlessM4TProcessor_init_def Let_def)

theorem preprocess_audio_failure_is_raised_witness:
  "frombuffer_int16 [1, 2, 3] = Inl (ValueError [Lit ''buffer size must be a multiple of element size''])
   \<and> preprocess_audio plain_library loaded_processor [1, 2, 3]
       = Inl (preprocessing_failed
               (ValueError [Lit ''buffer size must be a multiple of element size'']))
   \<and> frombuffer_int16 [0, 0] = Inr [0]
   \<and> enable_noise_suppression loaded_processor
   \<and> apply_noise_suppression plain_library loaded_processor (map int16_to_float [0])
       = Inl (ValueError [Lit ''The length of the input vector x must be greater than padlen''])
   \<and> preprocess_audio plain_library loaded_processor [0, 0]
       = Inl (preprocessing_failed
               (ValueError [Lit ''The length of the input vector x must be greater than padlen'']))"
proof -
  have d: "frombuffer_int16 [1, 2, 3] = Inl (ValueError [Lit ''buffer size must be a multiple of element size''])"
    by simp
  have s: "frombuffer_int16 [0, 0] = Inr [0]"
    by (simp add: word_cat_eq)
  have n: "enable_noise_suppression loaded_processor"
    by (simp add: loaded_processor_def SeamlessM4TProcessor_init_def)
  note t1 = preprocess_audio_failure_is_raised [of plain_library loaded_processor "[1, 2, 3]"]
  note t2 = preprocess_audio_failure_is_raised [of plain_library loaded_processor "[0, 0]"]
  have a: "preprocess_audio plain_library loaded_processor [1, 2, 3]
       = Inl (preprocessing_failed
               (ValueError [Lit ''buffer size must be a multiple of element size'']))"
    using t1 d by blast
  have b: "preprocess_audio plain_library loaded_processor [0, 0]
       = Inl (preprocessing_failed
               (ValueError [Lit ''The length of the input vector x must be greater than padlen'']))"
    using t2 s n noise_suppression_short_input by blast
  show ?thesis
    using d a s n noise_suppression_short_input b by blast
qed

section \<open>Properties of housekeeping\<close>

lemma endpoint_sessions:
  "uuid_ok lib sid \<Longrightarrow>
   active_sessions (websocket_endpoint lib P st ws sid info []) =
     AList.update sid
       \<lparr> si_session_id = sid, si_language_pair = snd (snd info), si_created_at = now st,
         si_last_activity = now st, si_message_count = 0, si_chunks_processed = 0,
         si_last_acknowledged_seq = 0 \<rparr>
       (active_sessions st)"
  by (simp add: websocket_endpoint_def Let_def)

lemma example_connected_sessions:
  "active_sessions example_connected =
     [(example_session,
       \<lparr> si_session_id = example_session, si_language_pair = ''en-hi'', si_created_at = 0,
         si_last_activity = 0, si_message_count = 0, si_chunks_processed = 0,
         si_last_acknowledged_seq = 0 \<rparr>)]"
  by (simp add: example_connected_def endpoint_sessions initial_server_def example_client_def)

text \<open>
  C7 (the code departs from the claim). The sweep compares \<^verbatim>\<open>.seconds\<close> of the idle
  time, the seconds left over after whole days, with 300. A session whose last activity
  was at time 0 is swept when the clock reads one day and 100 seconds: it has been idle
  for 86500 seconds, the seconds component is 100, and the sweep changes nothing but the
  clock reading; the session is still registered and a message sent to it afterwards is
  delivered.
\<close>

theorem day_long_idle_session_survives_sweep:
  "map (\<lambda>item. si_last_activity (snd item)) (active_sessions example_connected) = [0]
   \<and> session_cleanup_task [86500000000] example_connected
       = example_connected\<lparr> now := 86500000000 \<rparr>
   \<and> delivered 1 (wire (send_message (session_cleanup_task [86500000000] example_connected)
         example_session (keepalive_message example_session 86500000000)))
       = [connected_message example_session 0, keepalive_message example_session 86500000000]"
proof -
  have a: "map (\<lambda>item. si_last_activity (snd item)) (active_sessions example_connected) = [0]"
    by (simp add: example_connected_sessions)
  have b: "session_cleanup_task [86500000000] example_connected
       = example_connected\<lparr> now := 86500000000 \<rparr>"
    by (simp add: session_cleanup_sweep_def example_connected_sessions timedelta_seconds_def)
  have c: "delivered 1 (wire (send_message (example_connected\<lparr> now := 86500000000 \<rparr>)
         example_session (keepalive_message example_session 86500000000)))
       = [connected_message example_session 0, keepalive_message example_session 86500000000]"
    by (simp add: example_connected_facts send_events_def)
  show ?thesis using a b c by simp
qed

lemma evict_session_removes:
  "map_of (active_connections (evict_session sid st)) sid = None"
  "map_of (active_sessions (evict_session sid st)) sid = None"
  by (auto simp add: evict_session_def Let_def AList.delete_conv')

text \<open>
  Within the first day the sweep does what the claim says: after 301 seconds of
  idleness the session is removed, and sending to it does nothing.
\<close>

lemma five_minute_idle_session_is_evicted:
  "map_of (active_sessions (session_cleanup_task [301000000] example_connected)) example_session = None
   \<and> \<not> live (session_cleanup_task [301000000] example_connected) example_session
   \<and> send_message (session_cleanup_task [301000000] example_connected) example_session m
       = session_cleanup_task [301000000] example_connected"
proof -
  have s: "session_cleanup_task [301000000] example_connected
             = evict_session example_session (example_connected\<lparr> now := 301000000 \<rparr>)"
    by (simp add: session_cleanup_sweep_def example_connected_sessions timedelta_seconds_def)
  show ?thesis
    unfolding s by (simp add: evict_session_removes live_def send_message_def)
qed

section \<open>Sessions without a connection, and connections after a failure\<close>










section \<open>A chunk that is translated\<close>





lemma send_acknowledgment_total [simp]:
  "total_translations (connection_stats (send_acknowledgment st sid s))
     = total_translations (connection_stats st)"
  by (simp add: send_acknowledgment_def Let_def split: option.splits)

lemma transcript_is_transcript [simp]:
  "is_transcript (transcript_message sid ci sq res pt t)"
  by (simp add: is_transcript_def message_type_of_def transcript_message_def Let_def)


section \<open>The stored last-acknowledged sequence number\<close>



lemma loop_text_cons:
  "message_loop lib P sid (Text data # rest) st
     = message_loop lib P sid rest (process_websocket_message lib P (touch_session st sid) sid data)"
  by simp





end
